theory Spec2Isabelle
  imports Main "HOL-Library.Word" "HOL-Library.AList" "HOL-Library.Sublist"
begin

unbundle bit_operations_syntax

section \<open>DSE optimizer: band-state predicates (HLSCppOptimizer)\<close>

text \<open>\<^verbatim>\<open>enum LoopState { HOT = 0, COLD = 1, FROZEN = 2 }\<close> and
  \<^verbatim>\<open>using BandState = SmallVector<LoopState, 8>\<close>.\<close>

datatype LoopState = HOT | COLD | FROZEN

type_synonym BandState = "LoopState list"

text \<open>The three range-for loops. The first two return from inside the loop; the third
  counts in an \<^verbatim>\<open>unsigned\<close>, which is a 32-bit word here.\<close>

fun loopBandIsFrozen :: "BandState \<Rightarrow> bool" where
  "loopBandIsFrozen [] = True"
| "loopBandIsFrozen (loopState # bandState) =
     (if loopState \<noteq> FROZEN then False else loopBandIsFrozen bandState)"

fun loopBandIsColdOrFrozen :: "BandState \<Rightarrow> bool" where
  "loopBandIsColdOrFrozen [] = True"
| "loopBandIsColdOrFrozen (loopState # bandState) =
     (if loopState = HOT then False else loopBandIsColdOrFrozen bandState)"

fun countHot :: "32 word \<Rightarrow> BandState \<Rightarrow> 32 word" where
  "countHot hotNum [] = hotNum"
| "countHot hotNum (loopState # bandState) =
     countHot (if loopState = HOT then hotNum + 1 else hotNum) bandState"

definition loopBandIsOneHot :: "BandState \<Rightarrow> bool" where
  "loopBandIsOneHot bandState =
     (let hotNum = countHot 0 bandState in if hotNum = 1 then True else False)"

section \<open>Rendering numbers\<close>

definition digit_char :: "int \<Rightarrow> char" where
  "digit_char d = ''0123456789'' ! nat d"

function decimal :: "int \<Rightarrow> string" where
  "decimal n = (if n < 10 then [digit_char n] else decimal (n div 10) @ [digit_char (n mod 10)])"
  by pat_completeness auto
termination
  by (relation "measure nat") auto

declare decimal.simps [simp del]

definition string_of_nat :: "nat \<Rightarrow> string" where
  "string_of_nat n = decimal (int n)"

definition string_of_int :: "int \<Rightarrow> string" where
  "string_of_int i = (if i < 0 then ''-'' @ decimal (- i) else decimal i)"

datatype fpvalue = Finite bool nat int | Infinity bool | NaN

fun isfinite :: "fpvalue \<Rightarrow> bool" where
  "isfinite (Finite s m e) = True"
| "isfinite (Infinity s) = False"
| "isfinite NaN = False"

fun greater_zero :: "fpvalue \<Rightarrow> bool" where
  "greater_zero (Finite s m e) = (\<not> s \<and> 0 < m)"
| "greater_zero (Infinity s) = (\<not> s)"
| "greater_zero NaN = False"

definition round_scaled :: "nat \<Rightarrow> int \<Rightarrow> int" where
  "round_scaled m e =
     (if 0 \<le> e then int m * 2 ^ nat e * 1000000
      else let num = int m * 1000000; den = 2 ^ nat (- e); q = num div den; r = num mod den
           in if den < 2 * r \<or> (2 * r = den \<and> odd q) then q + 1 else q)"

definition pad6 :: "int \<Rightarrow> string" where
  "pad6 n = replicate (6 - length (decimal n)) (CHR ''0'') @ decimal n"

fun to_string_double :: "fpvalue \<Rightarrow> string" where
  "to_string_double (Finite s m e) =
     (let q = round_scaled m e
      in (if s then ''-'' else '''') @ decimal (q div 1000000) @ ''.'' @ pad6 (q mod 1000000))"
| "to_string_double (Infinity s) = (if s then ''-inf'' else ''inf'')"
| "to_string_double NaN = ''nan''"

section \<open>The IR as the emitter reads it\<close>

datatype signedness = Signless | Signed | Unsigned

datatype elemType = Float32Type | Float64Type | IndexType | IntegerType nat signedness | OtherType

datatype affineExpr =
    AffineConstantExpr int
  | AffineDimExpr nat
  | AffineSymbolExpr nat
  | AddExpr affineExpr affineExpr
  | MulExpr affineExpr affineExpr
  | ModExpr affineExpr affineExpr
  | FloorDivExpr affineExpr affineExpr
  | CeilDivExpr affineExpr affineExpr

record affineMap =
  numDims :: nat
  mapResults :: "affineExpr list"

datatype shapedKind = MemRefType | TensorType | VectorType

record shapedInfo =
  shapedKind :: shapedKind
  elementType :: elemType
  shape :: "int list option"
  memorySpace :: nat

datatype mlirType = ScalarType elemType | ShapedType shapedInfo

definition hasStaticShape :: "shapedInfo \<Rightarrow> bool" where
  "hasStaticShape t = (case shape t of None \<Rightarrow> False | Some dims \<Rightarrow> list_all (\<lambda>d. d \<noteq> - 1) dims)"

datatype attr =
    FloatAttr fpvalue
  | IntegerAttr int
  | BoolAttr bool
  | DenseElementsAttr "attr list"
  | OtherAttr

datatype definingOp = BlockArgument | ConstantResult nat attr | OpResult nat

record Value =
  valueId :: nat
  valueType :: mlirType
  definedBy :: definingOp

record opInfo =
  opId :: nat
  opLine :: "nat option"
  opAttrs :: "(string \<times> attr) list"

datatype cmpFPredicate =
    AlwaysFalse | OEQ | OGT | OGE | OLT | OLE | ONE | ORD
  | UEQ | UGT | UGE | ULT | ULE | UNE | UNO | AlwaysTrue

datatype scfOp = ScfIfOp | ScfParallelOp | ScfReduceOp | ScfReduceReturnOp | ScfYieldOp

datatype affineOp =
    AffineIfOp | AffineParallelOp | AffineApplyOp | AffineMaxOp | AffineMinOp | AffineLoadOp
  | AffineStoreOp | AffineYieldOp | AffineVectorLoadOp | AffineVectorStoreOp | AffineDmaStartOp
  | AffineDmaWaitOp

datatype memrefOp =
    LoadOp | StoreOp | DeallocOp | DmaStartOp | DmaWaitOp | AtomicRMWOp | GenericAtomicRMWOp
  | AtomicYieldOp | MemRefCastOp | ViewOp | SubViewOp

datatype tensorOp = TensorLoadOp | TensorStoreOp | SplatOp | DimOp | RankOp

datatype unaryOp =
    AbsFOp | CeilFOp | NegFOp | CosOp | SinOp | TanhOp | SqrtOp | RsqrtOp | ExpOp | Exp2Op
  | LogOp | Log2Op | Log10Op

datatype floatBinaryOp = CmpFOp cmpFPredicate | AddFOp | SubFOp | MulFOp | DivFOp | RemFOp

datatype intBinaryOp =
    CmpIOp | AddIOp | SubIOp | MulIOp | SignedDivIOp | SignedRemIOp | UnsignedDivIOp
  | UnsignedRemIOp | XOrOp | AndOp | OrOp | ShiftLeftOp | SignedShiftRightOp
  | UnsignedShiftRightOp

datatype specialOp =
    SelectOp | CopySignOp | TruncateIOp | ZeroExtendIOp | SignExtendIOp | IndexCastOp | CallOp
  | ReturnOp | UIToFPOp | SIToFPOp | FPToSIOp | FPToUIOp

datatype structureOp = AssignOp | EndOp

datatype kernelOp =
    DenseOp | ConvOp | MaxPoolOp | ReluOp | MergeOp | CopyOp
  | AmaxOp | AminOp | AsumOp | AxpyOp | DotOp | GbmvOp | GemmOp | GemvOp | Nrm2Op | ScalOp
  | SwapOp | SymmOp | SymvOp | SyrkOp | Syr2kOp | TrmmOp | TrmvOp
  | FFTOp | PSqrtOp | IPOp

datatype opName =
    Scf scfOp | Affine affineOp | Memref memrefOp | TensorRelated tensorOp | Unary unaryOp
  | FloatBinary floatBinaryOp | IntBinary intBinaryOp | Special specialOp
  | Structure structureOp | HLSKernel kernelOp | Unregistered string

datatype operation =
    AffineForOp opInfo Value affineMap "Value list" affineMap "Value list" int "operation list"
  | ScfForOp opInfo Value Value Value Value "operation list"
  | AllocOp opInfo Value
  | AllocaOp opInfo Value
  | ConstantOp opInfo Value attr
  | TensorToMemrefOp opInfo Value Value
  | OtherOp opName opInfo "Value list" "Value list"

section \<open>HLSCppEmitterState and HLSCppEmitterBase\<close>

record emitterState =
  os :: string
  encounteredError :: bool
  currentIndent :: "32 word"
  nameTable :: "(Value \<times> string) list"
  diagnostics :: "(nat \<times> string) list"

datatype error = AssertionFailed string | NullDereference | OutOfRange | Aborted emitterState

type_synonym emitter = "emitterState \<Rightarrow> error + emitterState"

definition initialState :: emitterState where
  "initialState = \<lparr>os = [], encounteredError = False, currentIndent = 0, nameTable = [],
     diagnostics = []\<rparr>"

definition ok :: "(emitterState \<Rightarrow> emitterState) \<Rightarrow> emitter" where
  "ok f st = Inr (f st)"

fun chain :: "emitter list \<Rightarrow> emitter" where
  "chain [] st = Inr st"
| "chain (f # fs) st = (case f st of Inl e \<Rightarrow> Inl e | Inr st' \<Rightarrow> chain fs st')"

definition print :: "string \<Rightarrow> emitterState \<Rightarrow> emitterState" where
  "print s st = st\<lparr>os := os st @ s\<rparr>"

definition newline :: string where
  "newline = [CHR 0x0A]"

definition tab :: string where
  "tab = [CHR 0x09]"

definition emitError :: "nat \<Rightarrow> string \<Rightarrow> emitterState \<Rightarrow> emitterState" where
  "emitError opid message st =
     st\<lparr>encounteredError := True, diagnostics := diagnostics st @ [(opid, message)]\<rparr>"

definition emitErrorAtDefiningOp :: "Value \<Rightarrow> string \<Rightarrow> emitter" where
  "emitErrorAtDefiningOp val message st =
     (case definedBy val of
        BlockArgument \<Rightarrow> Inl NullDereference
      | ConstantResult opid a \<Rightarrow> Inr (emitError opid message st)
      | OpResult opid \<Rightarrow> Inr (emitError opid message st))"

definition indent :: "emitterState \<Rightarrow> emitterState" where
  "indent st = print (replicate (unat (currentIndent st)) (CHR '' '')) st"

definition addIndent :: "emitterState \<Rightarrow> emitterState" where
  "addIndent st = st\<lparr>currentIndent := currentIndent st + 2\<rparr>"

definition reduceIndent :: "emitterState \<Rightarrow> emitterState" where
  "reduceIndent st = st\<lparr>currentIndent := currentIndent st - 2\<rparr>"

definition lookupName :: "emitterState \<Rightarrow> Value \<Rightarrow> string" where
  "lookupName st val = (case map_of (nameTable st) val of None \<Rightarrow> [] | Some n \<Rightarrow> n)"

definition getName :: "emitterState \<Rightarrow> Value \<Rightarrow> string" where
  "getName st val =
     (case definedBy val of
        ConstantResult opid constAttr \<Rightarrow>
          (case constAttr of
             FloatAttr v \<Rightarrow>
               (if isfinite v then to_string_double v
                else if greater_zero v then ''INFINITY''
                else ''-INFINITY'')
           | IntegerAttr v \<Rightarrow> string_of_int v
           | BoolAttr b \<Rightarrow> string_of_int (if b then 1 else 0)
           | DenseElementsAttr xs \<Rightarrow> lookupName st val
           | OtherAttr \<Rightarrow> lookupName st val)
      | BlockArgument \<Rightarrow> lookupName st val
      | OpResult opid \<Rightarrow> lookupName st val)"

definition isDeclared :: "emitterState \<Rightarrow> Value \<Rightarrow> bool" where
  "isDeclared st val = (if getName st val = [] then False else True)"

definition addName :: "Value \<Rightarrow> bool \<Rightarrow> emitterState \<Rightarrow> error + (string \<times> emitterState)" where
  "addName val isPtr st =
     (if isDeclared st val then Inl (AssertionFailed ''has been declared before.'')
      else
        let valName = (if isPtr then ''*'' else []) @ ''val'' @ string_of_nat (length (nameTable st))
        in Inr (valName, st\<lparr>nameTable := AList.update val valName (nameTable st)\<rparr>))"

definition addAlias :: "Value \<Rightarrow> Value \<Rightarrow> emitterState \<Rightarrow> error + (string \<times> emitterState)" where
  "addAlias val alias st =
     (if isDeclared st alias then Inl (AssertionFailed ''has been declared before.'')
      else if \<not> isDeclared st val then Inl (AssertionFailed ''hasn't been declared before.'')
      else
        let valName = getName st val
        in Inr (valName, st\<lparr>nameTable := AList.update alias valName (nameTable st)\<rparr>))"


section \<open>Helpers of the project that the emitter calls\<close>

text \<open>\<^verbatim>\<open>getLayoutMap\<close> and \<^verbatim>\<open>getPartitionFactors\<close> are declared in
  \<^verbatim>\<open>scalehls/Analysis/Utils.h\<close>, and the stream's \<^verbatim>\<open>operator<<(double)\<close> is the library's;
  the emitter takes them as parameters. \<^verbatim>\<open>emitOther\<close> stands for the emitters of the
  operations whose text no statement below depends on.\<close>

record env =
  getLayoutMap :: "shapedInfo \<Rightarrow> affineExpr list option"
  getPartitionFactors :: "shapedInfo \<Rightarrow> int list"
  streamDouble :: "fpvalue \<Rightarrow> string"
  emitOther :: "opName \<Rightarrow> opInfo \<Rightarrow> Value list \<Rightarrow> Value list \<Rightarrow> emitter"

section \<open>ModuleEmitter: C++ component emitters\<close>

definition idxSuffix :: "nat \<Rightarrow> string" where
  "idxSuffix rank = concat (map (\<lambda>i. ''[idx'' @ string_of_nat i @ '']'') [0..<rank])"

definition typeName :: "elemType \<Rightarrow> string option" where
  "typeName valType =
     (case valType of
        Float32Type \<Rightarrow> Some ''float ''
      | Float64Type \<Rightarrow> Some ''double ''
      | IndexType \<Rightarrow> Some ''int ''
      | IntegerType width sign \<Rightarrow>
          (if width = 1 then Some ''bool ''
           else Some (''ap_'' @ (if sign = Unsigned then ''u'' else []) @ ''int<''
                      @ string_of_nat width @ ''> ''))
      | OtherType \<Rightarrow> None)"

definition typeText :: "Value \<Rightarrow> elemType \<Rightarrow> emitter" where
  "typeText val valType st =
     (case typeName valType of
        Some text \<Rightarrow> Inr (print text st)
      | None \<Rightarrow> emitErrorAtDefiningOp val ''has unsupported type.'' st)"

definition emitValue :: "Value \<Rightarrow> nat \<Rightarrow> bool \<Rightarrow> emitter" where
  "emitValue val rank isPtr st =
     (if rank \<noteq> 0 \<and> isPtr then Inl (AssertionFailed ''should be either an array or a pointer.'')
      else if isDeclared st val then Inr (print (getName st val @ idxSuffix rank) st)
      else
        let valType = (case valueType val of ShapedType arrayType \<Rightarrow> elementType arrayType
                                           | ScalarType t \<Rightarrow> t)
        in case typeText val valType st of
             Inl e \<Rightarrow> Inl e
           | Inr st1 \<Rightarrow>
               (case addName val isPtr st1 of
                  Inl e \<Rightarrow> Inl e
                | Inr (valName, st2) \<Rightarrow> Inr (print (valName @ idxSuffix rank) st2)))"

definition shapeText :: "int list \<Rightarrow> string" where
  "shapeText dims = concat (map (\<lambda>d. ''['' @ string_of_int d @ '']'') dims)"

definition emitArrayDecl :: "Value \<Rightarrow> emitter" where
  "emitArrayDecl array st =
     (if isDeclared st array then Inl (AssertionFailed ''has been declared before.'')
      else case valueType array of
             ScalarType t \<Rightarrow> Inl (AssertionFailed ''cast<ShapedType>'')
           | ShapedType arrayType \<Rightarrow>
               (if hasStaticShape arrayType
                then chain [emitValue array 0 False,
                            ok (print (shapeText (case shape arrayType of Some dims \<Rightarrow> dims
                                                                          | None \<Rightarrow> [])))] st
                else emitValue array 0 True st))"

definition loopHeadText :: "nat \<Rightarrow> int \<Rightarrow> string" where
  "loopHeadText dimIdx extent =
     ''for (int idx'' @ string_of_nat dimIdx @ '' = 0; idx'' @ string_of_nat dimIdx @ '' < ''
       @ string_of_int extent @ ''; ++idx'' @ string_of_nat dimIdx @ '') {'' @ newline"

fun nestedLoops :: "nat \<Rightarrow> int list \<Rightarrow> emitterState \<Rightarrow> emitterState" where
  "nestedLoops dimIdx [] st = st"
| "nestedLoops dimIdx (extent # dims) st =
     nestedLoops (dimIdx + 1) dims (addIndent (print (loopHeadText dimIdx extent) (indent st)))"

definition emitNestedLoopHead :: "Value \<Rightarrow> emitterState \<Rightarrow> error + (nat \<times> emitterState)" where
  "emitNestedLoopHead val st =
     (case valueType val of
        ScalarType t \<Rightarrow> Inr (0, st)
      | ShapedType type \<Rightarrow>
          (if \<not> hasStaticShape type
           then (case emitErrorAtDefiningOp val ''is unranked or has dynamic shape.'' st of
                   Inl e \<Rightarrow> Inl e | Inr st1 \<Rightarrow> Inr (0, st1))
           else
             let dims = (case shape type of Some ds \<Rightarrow> ds | None \<Rightarrow> [])
             in case (if \<not> isDeclared st val
                      then chain [ok indent, emitArrayDecl val, ok (print ('';'' @ newline))] st
                      else Inr st) of
                  Inl e \<Rightarrow> Inl e
                | Inr st1 \<Rightarrow> Inr (length dims, nestedLoops 0 dims st1)))"

fun emitNestedLoopTail :: "nat \<Rightarrow> emitterState \<Rightarrow> emitterState" where
  "emitNestedLoopTail 0 st = st"
| "emitNestedLoopTail (Suc rank) st =
     emitNestedLoopTail rank (print (''}'' @ newline) (indent (reduceIndent st)))"

definition getIntegerAttr :: "opInfo \<Rightarrow> string \<Rightarrow> int option" where
  "getIntegerAttr info name =
     (case map_of (opAttrs info) name of Some (IntegerAttr i) \<Rightarrow> Some i | _ \<Rightarrow> None)"

text \<open>Modelled from the spec: \<^verbatim>\<open>getIntAttrValue\<close> is declared in \<^verbatim>\<open>scalehls/Analysis/Utils.h\<close>,
  a file the sources do not hold. A loop carries \<^verbatim>\<open>pipeline\<close> (a flag) and \<^verbatim>\<open>target_ii\<close> (an
  integer), and a loop is marked when the flag is set: the attribute of that name read as an
  integer, a flag as 1 or 0, and 0 for an operation that carries no such attribute.\<close>

definition getIntAttrValue :: "opInfo \<Rightarrow> string \<Rightarrow> int" where
  "getIntAttrValue info name =
     (case map_of (opAttrs info) name of
        Some (IntegerAttr i) \<Rightarrow> i
      | Some (BoolAttr b) \<Rightarrow> (if b then 1 else 0)
      | _ \<Rightarrow> 0)"

definition infoText :: "opInfo \<Rightarrow> string" where
  "infoText info =
     tab @ ''//''
       @ (case opLine info of Some line \<Rightarrow> '' L'' @ string_of_nat line | None \<Rightarrow> [])
       @ (case getIntegerAttr info ''schedule_begin'' of
            Some b \<Rightarrow> '', S['' @ string_of_int b | None \<Rightarrow> [])
       @ (case getIntegerAttr info ''schedule_end'' of
            Some e \<Rightarrow> '','' @ string_of_int e @ '')'' | None \<Rightarrow> [])
       @ (case getIntegerAttr info ''iter_latency'' of
            Some l \<Rightarrow> '', latency='' @ string_of_int l | None \<Rightarrow> [])
       @ (case getIntegerAttr info ''ii'' of
            Some i \<Rightarrow> '', II='' @ string_of_int i | None \<Rightarrow> [])
       @ newline"

definition emitInfoAndNewLine :: "opInfo \<Rightarrow> emitterState \<Rightarrow> emitterState" where
  "emitInfoAndNewLine info st = print (infoText info) st"

section \<open>ModuleEmitter: array pragmas, alloc, tensor_to_memref, constant\<close>

text \<open>\<^verbatim>\<open>enum class MemoryKind { BRAM_1P = 0, BRAM_S2P = 1, BRAM_T2P = 2, DRAM = 3, None = 4 }\<close>,
  read from the memory space of the type by a cast.\<close>

definition coreText :: "nat \<Rightarrow> string" where
  "coreText kind =
     (if kind = 0 then ''ram_1p_bram''
      else if kind = 1 then ''ram_s2p_bram''
      else if kind = 2 then ''ram_t2p_bram''
      else ''ram_s2p_bram'')"

definition emitResourcePragma :: "Value \<Rightarrow> nat \<Rightarrow> emitter" where
  "emitResourcePragma memref kind =
     chain [ok indent, ok (print (''#pragma HLS resource'' @ '' variable='')),
            emitValue memref 0 False,
            ok (print ('' core='' @ coreText kind @ newline))]"

fun emitPartitionPragmas ::
  "Value \<Rightarrow> affineExpr list \<Rightarrow> int list \<Rightarrow> nat \<Rightarrow> nat \<Rightarrow> bool \<Rightarrow> emitterState
     \<Rightarrow> error + (bool \<times> emitterState)" where
  "emitPartitionPragmas memref layoutMap factors dim 0 flag st = Inr (flag, st)"
| "emitPartitionPragmas memref layoutMap factors dim (Suc n) flag st =
     (if length factors \<le> dim then Inl OutOfRange
      else if factors ! dim \<noteq> 1 then
        (if length layoutMap \<le> dim then Inl OutOfRange
         else case chain [ok indent, ok (print (''#pragma HLS array_partition'' @ '' variable='')),
                          emitValue memref 0 False,
                          ok (print ((case layoutMap ! dim of FloorDivExpr a b \<Rightarrow> '' block''
                                                              | _ \<Rightarrow> '' cyclic'')
                                     @ '' factor='' @ string_of_int (factors ! dim)
                                     @ '' dim='' @ string_of_nat (dim + 1) @ newline))] st of
                Inl e \<Rightarrow> Inl e
              | Inr st1 \<Rightarrow> emitPartitionPragmas memref layoutMap factors (dim + 1) n True st1)
      else emitPartitionPragmas memref layoutMap factors (dim + 1) n flag st)"

definition emitArrayPragmas :: "env \<Rightarrow> Value \<Rightarrow> emitter" where
  "emitArrayPragmas E memref st =
     (case valueType memref of
        ScalarType t \<Rightarrow> Inl (AssertionFailed ''cast<MemRefType>'')
      | ShapedType type \<Rightarrow>
          (case shape type of
             None \<Rightarrow> Inl (AssertionFailed ''cast<MemRefType>'')
           | Some dims \<Rightarrow>
               (if shapedKind type \<noteq> MemRefType then Inl (AssertionFailed ''cast<MemRefType>'')
                else
                  let kind = memorySpace type
                  in case (if kind \<noteq> 3 \<and> kind \<noteq> 4
                           then (case emitResourcePragma memref kind st of
                                   Inl e \<Rightarrow> Inl e | Inr st1 \<Rightarrow> Inr (True, st1))
                           else Inr (False, st)) of
                       Inl e \<Rightarrow> Inl e
                     | Inr (flag1, st1) \<Rightarrow>
                         (case (case getLayoutMap E type of
                                  None \<Rightarrow> Inr (flag1, st1)
                                | Some layoutMap \<Rightarrow>
                                    emitPartitionPragmas memref layoutMap
                                      (getPartitionFactors E type) 0 (length dims) flag1 st1) of
                            Inl e \<Rightarrow> Inl e
                          | Inr (flag2, st2) \<Rightarrow>
                              Inr (if flag2 then print newline st2 else st2)))))"

definition emitAlloc :: "env \<Rightarrow> opInfo \<Rightarrow> Value \<Rightarrow> emitter" where
  "emitAlloc E info result st =
     (if isDeclared st result then Inr st
      else chain [
        (\<lambda>s. case valueType result of
               ShapedType type \<Rightarrow>
                 (if \<not> hasStaticShape type
                  then Inr (emitError (opId info) ''is unranked or has dynamic shape.'' s)
                  else Inr s)
             | ScalarType t \<Rightarrow> Inl (AssertionFailed ''cast<MemRefType>'')),
        ok indent,
        emitArrayDecl result,
        ok (print '';''),
        ok (emitInfoAndNewLine info),
        emitArrayPragmas E result] st)"

definition emitTensorToMemref :: "env \<Rightarrow> opInfo \<Rightarrow> Value \<Rightarrow> Value \<Rightarrow> emitter" where
  "emitTensorToMemref E info operand result st =
     (if isDeclared st result then
        (case emitNestedLoopHead result st of
           Inl e \<Rightarrow> Inl e
         | Inr (rank, st1) \<Rightarrow>
             chain [ok indent, emitValue result rank False, ok (print '' = ''),
                    emitValue operand rank False, ok (print '';''),
                    ok (emitInfoAndNewLine info), ok (emitNestedLoopTail rank)] st1)
      else
        (case addAlias operand result st of
           Inl e \<Rightarrow> Inl e
         | Inr (valName, st1) \<Rightarrow> emitArrayPragmas E result st1))"

definition floatElementText :: "env \<Rightarrow> fpvalue \<Rightarrow> string" where
  "floatElementText E v =
     (if isfinite v then streamDouble E v
      else if greater_zero v then ''INFINITY''
      else ''-INFINITY'')"

definition emitElement :: "env \<Rightarrow> opInfo \<Rightarrow> elemType \<Rightarrow> attr \<Rightarrow> emitter" where
  "emitElement E info type element st =
     (if type = Float32Type \<or> type = Float64Type then
        (case element of
           FloatAttr v \<Rightarrow> Inr (print (floatElementText E v) st)
         | _ \<Rightarrow> Inl (AssertionFailed ''cast<FloatAttr>''))
      else case type of
             IntegerType width sign \<Rightarrow>
               (if width = 1 then
                  (case element of
                     BoolAttr b \<Rightarrow> Inr (print (string_of_int (if b then 1 else 0)) st)
                   | _ \<Rightarrow> Inl (AssertionFailed ''cast<BoolAttr>''))
                else
                  (case element of
                     IntegerAttr i \<Rightarrow> Inr (print (string_of_int i) st)
                   | _ \<Rightarrow> Inl (AssertionFailed ''cast<IntegerAttr>'')))
           | IndexType \<Rightarrow>
               (case element of
                  IntegerAttr i \<Rightarrow> Inr (print (string_of_int i) st)
                | _ \<Rightarrow> Inl (AssertionFailed ''cast<IntegerAttr>''))
           | _ \<Rightarrow> Inr (emitError (opId info) ''array has unsupported element type.'' st))"

fun emitElements :: "env \<Rightarrow> opInfo \<Rightarrow> elemType \<Rightarrow> attr list \<Rightarrow> emitter" where
  "emitElements E info type [] st = Inr st"
| "emitElements E info type (element # rest) st =
     (case emitElement E info type element st of
        Inl e \<Rightarrow> Inl e
      | Inr st1 \<Rightarrow>
          emitElements E info type rest (if rest \<noteq> [] then print '', '' st1 else st1))"

definition emitConstant :: "env \<Rightarrow> opInfo \<Rightarrow> Value \<Rightarrow> attr \<Rightarrow> emitter" where
  "emitConstant E info result constValue st =
     (if isDeclared st result then Inr st
      else case constValue of
             DenseElementsAttr elements \<Rightarrow>
               chain [ok indent, emitArrayDecl result, ok (print '' = {''),
                      (\<lambda>s. case valueType result of
                             ShapedType t \<Rightarrow> emitElements E info (elementType t) elements s
                           | ScalarType t \<Rightarrow> Inl (AssertionFailed ''cast<ShapedType>'')),
                      ok (print ''};''), ok (emitInfoAndNewLine info)] st
           | _ \<Rightarrow> Inr (emitError (opId info) ''has unsupported constant type.'' st))"


text \<open>\<^verbatim>\<open>emitFunction\<close>, the loop over the operands of the return: each returned value is
  declared in the signature, an array by \<^verbatim>\<open>emitArrayDecl\<close> and a scalar as a pointer.\<close>

definition emitFunctionResult :: "Value \<Rightarrow> emitter" where
  "emitFunctionResult result =
     chain [ok (print ('','' @ newline)), ok indent,
            (\<lambda>s. case valueType result of
                   ShapedType t \<Rightarrow> emitArrayDecl result s
                 | ScalarType t \<Rightarrow> emitValue result 0 True s)]"

section \<open>AffineExprEmitter\<close>

definition both :: "error + string \<Rightarrow> error + string \<Rightarrow> (string \<Rightarrow> string \<Rightarrow> string) \<Rightarrow> error + string" where
  "both a b f =
     (case a of Inl e \<Rightarrow> Inl e
      | Inr x \<Rightarrow> (case b of Inl e \<Rightarrow> Inl e | Inr y \<Rightarrow> Inr (f x y)))"

definition binaryText :: "string \<Rightarrow> string \<Rightarrow> string \<Rightarrow> string" where
  "binaryText syntax l r = ''('' @ l @ '' '' @ syntax @ '' '' @ r @ '')''"

text \<open>\<^verbatim>\<open>-constRHS.getValue()\<close> negates an \<^verbatim>\<open>int64_t\<close>.\<close>

definition negate64 :: "int \<Rightarrow> int" where
  "negate64 c = sint (- (word_of_int c :: 64 word))"

fun emitAffineExpr :: "emitterState \<Rightarrow> nat \<Rightarrow> Value list \<Rightarrow> affineExpr \<Rightarrow> error + string" where
  "emitAffineExpr st numDim operands (AffineConstantExpr c) = Inr (string_of_int c)"
| "emitAffineExpr st numDim operands (AffineDimExpr pos) =
     (if pos < length operands then Inr (getName st (operands ! pos)) else Inl OutOfRange)"
| "emitAffineExpr st numDim operands (AffineSymbolExpr pos) =
     (if numDim + pos < length operands then Inr (getName st (operands ! (numDim + pos)))
      else Inl OutOfRange)"
| "emitAffineExpr st numDim operands (AddExpr lhs rhs) =
     (case rhs of
        AffineConstantExpr c \<Rightarrow>
          (if c < 0
           then both (emitAffineExpr st numDim operands lhs) (Inr (string_of_int (negate64 c)))
                  (\<lambda>l r. ''('' @ l @ '' - '' @ r @ '')'')
           else both (emitAffineExpr st numDim operands lhs) (emitAffineExpr st numDim operands rhs)
                  (binaryText ''+''))
      | MulExpr binaryLhs (AffineConstantExpr c) \<Rightarrow>
          (if c = - 1
           then both (emitAffineExpr st numDim operands lhs)
                  (emitAffineExpr st numDim operands binaryLhs)
                  (\<lambda>l r. ''('' @ l @ '' - '' @ r @ '')'')
           else both (emitAffineExpr st numDim operands lhs) (emitAffineExpr st numDim operands rhs)
                  (binaryText ''+''))
      | _ \<Rightarrow> both (emitAffineExpr st numDim operands lhs) (emitAffineExpr st numDim operands rhs)
               (binaryText ''+''))"
| "emitAffineExpr st numDim operands (MulExpr lhs rhs) =
     (case rhs of
        AffineConstantExpr c \<Rightarrow>
          (if c = - 1
           then both (emitAffineExpr st numDim operands lhs) (Inr [])
                  (\<lambda>l r. ''('' @ ''-'' @ l @ '')'')
           else both (emitAffineExpr st numDim operands lhs) (emitAffineExpr st numDim operands rhs)
                  (binaryText ''*''))
      | _ \<Rightarrow> both (emitAffineExpr st numDim operands lhs) (emitAffineExpr st numDim operands rhs)
               (binaryText ''*''))"
| "emitAffineExpr st numDim operands (ModExpr lhs rhs) =
     both (emitAffineExpr st numDim operands lhs) (emitAffineExpr st numDim operands rhs)
       (binaryText ''%'')"
| "emitAffineExpr st numDim operands (FloorDivExpr lhs rhs) =
     both (emitAffineExpr st numDim operands lhs) (emitAffineExpr st numDim operands rhs)
       (binaryText ''/'')"
| "emitAffineExpr st numDim operands (CeilDivExpr lhs rhs) =
     both (emitAffineExpr st numDim operands lhs) (emitAffineExpr st numDim operands rhs)
       (\<lambda>l r. ''('' @ l @ '' + '' @ r @ '' - 1) / '' @ r @ '')'')"

fun restOfBound :: "emitterState \<Rightarrow> nat \<Rightarrow> Value list \<Rightarrow> affineExpr list \<Rightarrow> error + string" where
  "restOfBound st numDim operands [] = Inr []"
| "restOfBound st numDim operands (expr # exprs) =
     both (emitAffineExpr st numDim operands expr) (restOfBound st numDim operands exprs)
       (\<lambda>t r. '', '' @ t @ '')'' @ r)"

definition emitBound :: "string \<Rightarrow> affineMap \<Rightarrow> Value list \<Rightarrow> emitter" where
  "emitBound syntax boundMap operands st =
     (case mapResults boundMap of
        [] \<Rightarrow> Inl OutOfRange
      | [expr] \<Rightarrow>
          (case emitAffineExpr st (numDims boundMap) operands expr of
             Inl e \<Rightarrow> Inl e | Inr t \<Rightarrow> Inr (print t st))
      | expr # exprs \<Rightarrow>
          (case both (emitAffineExpr st (numDims boundMap) operands expr)
                  (restOfBound st (numDims boundMap) operands exprs)
                  (\<lambda>t r. concat (replicate (length exprs) (syntax @ ''('')) @ t @ r) of
             Inl e \<Rightarrow> Inl e | Inr t \<Rightarrow> Inr (print t st)))"

section \<open>ModuleEmitter: counted loops\<close>

definition emitPipelinePragma :: "opInfo \<Rightarrow> emitterState \<Rightarrow> emitterState" where
  "emitPipelinePragma info st =
     (if getIntAttrValue info ''pipeline'' \<noteq> 0
      then print (''#pragma HLS pipeline II='' @ string_of_int (getIntAttrValue info ''target_ii'')
                  @ newline) (indent st)
      else st)"

definition affineForOpening ::
  "env \<Rightarrow> opInfo \<Rightarrow> Value \<Rightarrow> affineMap \<Rightarrow> Value list \<Rightarrow> affineMap \<Rightarrow> Value list \<Rightarrow> int \<Rightarrow> emitter" where
  "affineForOpening E info iterVar lowerMap lowerOperands upperMap upperOperands step =
     chain [ok indent, ok (print ''for (''),
            emitValue iterVar 0 False, ok (print '' = ''),
            emitBound ''max'' lowerMap lowerOperands, ok (print ''; ''),
            emitValue iterVar 0 False, ok (print '' < ''),
            emitBound ''min'' upperMap upperOperands, ok (print ''; ''),
            emitValue iterVar 0 False, ok (print ('' += '' @ string_of_int step @ '') {'')),
            ok (emitInfoAndNewLine info),
            ok addIndent]"

definition scfForOpening :: "env \<Rightarrow> opInfo \<Rightarrow> Value \<Rightarrow> Value \<Rightarrow> Value \<Rightarrow> Value \<Rightarrow> emitter" where
  "scfForOpening E info iterVar lowerBound upperBound step =
     chain [ok indent, ok (print ''for (''),
            emitValue iterVar 0 False, ok (print '' = ''),
            emitValue lowerBound 0 False, ok (print ''; ''),
            emitValue iterVar 0 False, ok (print '' < ''),
            emitValue upperBound 0 False, ok (print ''; ''),
            emitValue iterVar 0 False, ok (print '' += ''),
            emitValue step 0 False, ok (print '') {''),
            ok (emitInfoAndNewLine info),
            ok addIndent]"

definition forTail :: "emitterState \<Rightarrow> emitterState" where
  "forTail st = print (''}'' @ newline) (indent (reduceIndent st))"

section \<open>The three dispatchers and emitBlock\<close>

definition handled :: "error + emitterState \<Rightarrow> error + (bool \<times> emitterState)" where
  "handled r = (case r of Inl e \<Rightarrow> Inl e | Inr st \<Rightarrow> Inr (True, st))"

definition opInfoOf :: "operation \<Rightarrow> opInfo" where
  "opInfoOf op =
     (case op of
        AffineForOp info iv lm lo um uo step body \<Rightarrow> info
      | ScfForOp info iv lb ub step body \<Rightarrow> info
      | AllocOp info r \<Rightarrow> info
      | AllocaOp info r \<Rightarrow> info
      | ConstantOp info r a \<Rightarrow> info
      | TensorToMemrefOp info operand r \<Rightarrow> info
      | OtherOp name info operands results \<Rightarrow> info)"

text \<open>\<^verbatim>\<open>ExprVisitor::visitOp(CmpFOp)\<close>: the predicates of its switch.\<close>

definition supportedCmpF :: "cmpFPredicate \<Rightarrow> bool" where
  "supportedCmpF p = (p \<in> set [OEQ, UEQ, ONE, UNE, OLT, ULT, OLE, ULE, OGT, UGT, OGE, UGE])"

definition inHLSCppCatalogue :: "opName \<Rightarrow> bool" where
  "inHLSCppCatalogue name =
     (case name of HLSKernel k \<Rightarrow> False | Unregistered n \<Rightarrow> False | _ \<Rightarrow> True)"

definition inHLSKernelCatalogue :: "opName \<Rightarrow> bool" where
  "inHLSKernelCatalogue name =
     (case name of
        HLSKernel k \<Rightarrow> k \<notin> set [FFTOp, PSqrtOp, IPOp]
      | _ \<Rightarrow> False)"

definition exprVisitor :: "env \<Rightarrow> operation \<Rightarrow> emitterState \<Rightarrow> error + (bool \<times> emitterState)" where
  "exprVisitor E op st =
     (case op of
        ConstantOp info r a \<Rightarrow> handled (emitConstant E info r a st)
      | OtherOp name info operands results \<Rightarrow>
          (case name of
             FloatBinary (CmpFOp p) \<Rightarrow>
               (if supportedCmpF p then handled (emitOther E name info operands results st)
                else Inr (False, st\<lparr>diagnostics := diagnostics st
                                       @ [(opId info, ''has unsupported compare type.'')]\<rparr>))
           | FloatBinary b \<Rightarrow> handled (emitOther E name info operands results st)
           | IntBinary b \<Rightarrow> handled (emitOther E name info operands results st)
           | Unary u \<Rightarrow> handled (emitOther E name info operands results st)
           | Special s \<Rightarrow>
               (if s = ReturnOp then Inr (True, st)
                else if s \<in> set [SelectOp, IndexCastOp, UIToFPOp, SIToFPOp, FPToUIOp, FPToSIOp, CallOp]
                then handled (emitOther E name info operands results st)
                else Inr (False, st))
           | _ \<Rightarrow> Inr (False, st))
      | _ \<Rightarrow> Inr (False, st))"

definition stmtHandles :: "opName \<Rightarrow> bool" where
  "stmtHandles name =
     (case name of
        Scf s \<Rightarrow> s \<in> set [ScfIfOp, ScfYieldOp]
      | Affine a \<Rightarrow> a \<in> set [AffineIfOp, AffineParallelOp, AffineApplyOp, AffineMaxOp, AffineMinOp,
                              AffineLoadOp, AffineStoreOp, AffineYieldOp]
      | Memref m \<Rightarrow> m \<in> set [LoadOp, StoreOp]
      | TensorRelated t \<Rightarrow> t \<in> set [TensorLoadOp, TensorStoreOp, DimOp, RankOp]
      | Structure s \<Rightarrow> s = AssignOp
      | _ \<Rightarrow> False)"

definition stmtIgnores :: "opName \<Rightarrow> bool" where
  "stmtIgnores name =
     (case name of
        Scf s \<Rightarrow> s \<in> set [ScfParallelOp, ScfReduceOp, ScfReduceReturnOp]
      | Memref m \<Rightarrow> m = DeallocOp
      | Structure s \<Rightarrow> s = EndOp
      | _ \<Rightarrow> False)"

definition ipHandles :: "kernelOp \<Rightarrow> bool" where
  "ipHandles k = (k \<in> set [AmaxOp, AminOp, AsumOp, AxpyOp, DotOp, GbmvOp, GemmOp, GemvOp, Nrm2Op,
                            ScalOp, SwapOp, SymvOp, TrmvOp])"

text \<open>\<^verbatim>\<open>HLSKernelVisitorBase::visitInvalidOp\<close>: \<^verbatim>\<open>op->emitOpError(...); abort();\<close>\<close>

definition kernelVisitInvalidOp :: "opInfo \<Rightarrow> emitterState \<Rightarrow> error + (bool \<times> emitterState)" where
  "kernelVisitInvalidOp info st =
     Inl (Aborted (st\<lparr>diagnostics := diagnostics st @ [(opId info, ''is unsupported operation.'')]\<rparr>))"

definition ipVisitor :: "env \<Rightarrow> operation \<Rightarrow> emitterState \<Rightarrow> error + (bool \<times> emitterState)" where
  "ipVisitor E op st =
     (case op of
        OtherOp name info operands results \<Rightarrow>
          (case name of
             HLSKernel k \<Rightarrow>
               (if inHLSKernelCatalogue name
                then (if ipHandles k then handled (emitOther E name info operands results st)
                      else Inr (False, st))
                else kernelVisitInvalidOp info st)
           | _ \<Rightarrow> kernelVisitInvalidOp info st)
      | _ \<Rightarrow> kernelVisitInvalidOp (opInfoOf op) st)"

fun emitBlock :: "env \<Rightarrow> operation list \<Rightarrow> emitter"
  and stmtVisitor :: "env \<Rightarrow> operation \<Rightarrow> emitterState \<Rightarrow> error + (bool \<times> emitterState)"
  and emitAffineFor ::
    "env \<Rightarrow> opInfo \<Rightarrow> Value \<Rightarrow> affineMap \<Rightarrow> Value list \<Rightarrow> affineMap \<Rightarrow> Value list \<Rightarrow> int
       \<Rightarrow> operation list \<Rightarrow> emitter"
  and emitScfFor ::
    "env \<Rightarrow> opInfo \<Rightarrow> Value \<Rightarrow> Value \<Rightarrow> Value \<Rightarrow> Value \<Rightarrow> operation list \<Rightarrow> emitter"
where
  "emitBlock E [] st = Inr st"
| "emitBlock E (op # block) st =
     (case exprVisitor E op st of
        Inl e \<Rightarrow> Inl e
      | Inr (True, st1) \<Rightarrow> emitBlock E block st1
      | Inr (False, st1) \<Rightarrow>
          (case stmtVisitor E op st1 of
             Inl e \<Rightarrow> Inl e
           | Inr (True, st2) \<Rightarrow> emitBlock E block st2
           | Inr (False, st2) \<Rightarrow>
               (case ipVisitor E op st2 of
                  Inl e \<Rightarrow> Inl e
                | Inr (True, st3) \<Rightarrow> emitBlock E block st3
                | Inr (False, st3) \<Rightarrow>
                    emitBlock E block
                      (emitError (opId (opInfoOf op)) ''can't be correctly emitted.'' st3))))"
| "stmtVisitor E (AffineForOp info iterVar lowerMap lowerOperands upperMap upperOperands step body) st =
     handled (emitAffineFor E info iterVar lowerMap lowerOperands upperMap upperOperands step body st)"
| "stmtVisitor E (ScfForOp info iterVar lowerBound upperBound step body) st =
     handled (emitScfFor E info iterVar lowerBound upperBound step body st)"
| "stmtVisitor E (AllocOp info r) st = handled (emitAlloc E info r st)"
| "stmtVisitor E (AllocaOp info r) st = handled (emitAlloc E info r st)"
| "stmtVisitor E (TensorToMemrefOp info operand r) st =
     handled (emitTensorToMemref E info operand r st)"
| "stmtVisitor E (ConstantOp info r a) st = Inr (False, st)"
| "stmtVisitor E (OtherOp name info operands results) st =
     (if stmtIgnores name then Inr (True, st)
      else if stmtHandles name then handled (emitOther E name info operands results st)
      else Inr (False, st))"
| "emitAffineFor E info iterVar lowerMap lowerOperands upperMap upperOperands step body st =
     (case affineForOpening E info iterVar lowerMap lowerOperands upperMap upperOperands step st of
        Inl e \<Rightarrow> Inl e
      | Inr st1 \<Rightarrow>
          (case emitBlock E body (emitPipelinePragma info st1) of
             Inl e \<Rightarrow> Inl e
           | Inr st2 \<Rightarrow> Inr (forTail st2)))"
| "emitScfFor E info iterVar lowerBound upperBound step body st =
     (case scfForOpening E info iterVar lowerBound upperBound step st of
        Inl e \<Rightarrow> Inl e
      | Inr st1 \<Rightarrow>
          (case emitBlock E body (emitPipelinePragma info st1) of
             Inl e \<Rightarrow> Inl e
           | Inr st2 \<Rightarrow> Inr (forTail st2)))"

section \<open>One emission run as a sequence of writes to the name table\<close>

text \<open>\<^verbatim>\<open>addName\<close> and \<^verbatim>\<open>addAlias\<close> are the only functions that write \<^verbatim>\<open>state.nameTable\<close>;
  the table of a run is the result of a sequence of such calls on the empty table.\<close>

datatype tableOp = AddName Value bool | AddAlias Value Value

fun runOps :: "tableOp list \<Rightarrow> emitter" where
  "runOps [] st = Inr st"
| "runOps (AddName val isPtr # ops) st =
     (case addName val isPtr st of Inl e \<Rightarrow> Inl e | Inr (valName, st') \<Rightarrow> runOps ops st')"
| "runOps (AddAlias val alias # ops) st =
     (case addAlias val alias st of Inl e \<Rightarrow> Inl e | Inr (valName, st') \<Rightarrow> runOps ops st')"

definition digits :: "char set" where
  "digits = set ''0123456789''"

definition ownName :: "nat \<Rightarrow> string \<Rightarrow> bool" where
  "ownName k n = (n = ''val'' @ string_of_nat k \<or> n = ''*val'' @ string_of_nat k)"

definition literalName :: "string \<Rightarrow> bool" where
  "literalName n = (n \<noteq> [] \<and> (hd n \<in> digits \<or> hd n = CHR ''-'' \<or> hd n = CHR ''I''))"

definition scalarConstant :: "Value \<Rightarrow> bool" where
  "scalarConstant val =
     (case definedBy val of
        ConstantResult opid constAttr \<Rightarrow>
          (case constAttr of
             FloatAttr v \<Rightarrow> True | IntegerAttr v \<Rightarrow> True | BoolAttr b \<Rightarrow> True
           | DenseElementsAttr xs \<Rightarrow> False | OtherAttr \<Rightarrow> False)
      | BlockArgument \<Rightarrow> False
      | OpResult opid \<Rightarrow> False)"

definition tableInv :: "(Value \<times> string) list \<Rightarrow> bool" where
  "tableInv tbl = (\<forall>(v, n) \<in> set tbl. literalName n \<or> (\<exists>k < length tbl. ownName k n))"



section \<open>Concrete inputs\<close>

definition exampleEnv :: env where
  "exampleEnv =
     \<lparr>getLayoutMap = (\<lambda>t. None),
      getPartitionFactors = (\<lambda>t. []),
      streamDouble = to_string_double,
      emitOther = (\<lambda>name info operands results st. Inr st)\<rparr>"

definition exampleTensor :: Value where
  "exampleTensor =
     \<lparr>valueId = 0,
      valueType = ShapedType \<lparr>shapedKind = TensorType, elementType = Float32Type,
                              shape = Some [4], memorySpace = 0\<rparr>,
      definedBy = OpResult 0\<rparr>"

definition exampleMemref :: Value where
  "exampleMemref =
     \<lparr>valueId = 1,
      valueType = ShapedType \<lparr>shapedKind = MemRefType, elementType = Float32Type,
                              shape = Some [4], memorySpace = 4\<rparr>,
      definedBy = OpResult 1\<rparr>"

definition exampleScalar :: Value where
  "exampleScalar = \<lparr>valueId = 2, valueType = ScalarType Float32Type, definedBy = OpResult 2\<rparr>"

definition dynamicMemref :: Value where
  "dynamicMemref =
     \<lparr>valueId = 3,
      valueType = ShapedType \<lparr>shapedKind = MemRefType, elementType = Float32Type,
                              shape = Some [- 1], memorySpace = 0\<rparr>,
      definedBy = OpResult 3\<rparr>"

definition staticMemref :: Value where
  "staticMemref =
     \<lparr>valueId = 4,
      valueType = ShapedType \<lparr>shapedKind = MemRefType, elementType = Float32Type,
                              shape = Some [16, 8], memorySpace = 4\<rparr>,
      definedBy = OpResult 4\<rparr>"

definition exampleIndex :: Value where
  "exampleIndex = \<lparr>valueId = 5, valueType = ScalarType IndexType, definedBy = BlockArgument\<rparr>"

definition boundOperand :: Value where
  "boundOperand = \<lparr>valueId = 6, valueType = ScalarType IndexType, definedBy = OpResult 6\<rparr>"




definition plainInfo :: "nat \<Rightarrow> opInfo" where
  "plainInfo k = \<lparr>opId = k, opLine = None, opAttrs = []\<rparr>"


definition constantMap :: "int \<Rightarrow> affineMap" where
  "constantMap c = \<lparr>numDims = 0, mapResults = [AffineConstantExpr c]\<rparr>"

section \<open>Band-state predicates: proofs\<close>

lemma loopBandIsFrozen_iff: "loopBandIsFrozen bs \<longleftrightarrow> list_all (\<lambda>s. s = FROZEN) bs"
  by (induction bs) auto

lemma loopBandIsColdOrFrozen_iff: "loopBandIsColdOrFrozen bs \<longleftrightarrow> list_all (\<lambda>s. s \<noteq> HOT) bs"
  by (induction bs) auto

lemma countHot_of_nat: "countHot h bs = h + of_nat (count_list bs HOT)"
  by (induction bs arbitrary: h) auto

lemma count_list_le_length: "count_list bs x \<le> length bs"
  by (induction bs) auto

lemma loopBandIsOneHot_iff:
  assumes "length bs < 2 ^ 32"
  shows "loopBandIsOneHot bs \<longleftrightarrow> count_list bs HOT = 1"
proof -
  have lt: "count_list bs HOT < 2 ^ 32"
    using assms count_list_le_length [of bs HOT] by simp
  have "(of_nat (count_list bs HOT) :: 32 word) = 1 \<longleftrightarrow> count_list bs HOT = 1"
  proof
    assume "(of_nat (count_list bs HOT) :: 32 word) = 1"
    then have "unat (of_nat (count_list bs HOT) :: 32 word) = 1" by simp
    then show "count_list bs HOT = 1"
      using lt by (simp add: unat_of_nat)
  qed simp
  then show ?thesis
    by (simp add: loopBandIsOneHot_def countHot_of_nat)
qed

text \<open>C2. For a band-state vector (a \<^verbatim>\<open>SmallVector\<close>, whose size field is 32 bits wide, so
  shorter than \<open>2 ^ 32\<close>): \<open>loopBandIsFrozen\<close> holds iff every element is FROZEN,
  \<open>loopBandIsColdOrFrozen\<close> iff no element is HOT, and \<open>loopBandIsOneHot\<close> iff exactly one
  element is HOT.\<close>

theorem band_state_predicates:
  assumes "length bandState < 2 ^ 32"
  shows "(loopBandIsFrozen bandState \<longleftrightarrow> (\<forall>s \<in> set bandState. s = FROZEN))
       \<and> (loopBandIsColdOrFrozen bandState \<longleftrightarrow> (\<forall>s \<in> set bandState. s \<noteq> HOT))
       \<and> (loopBandIsOneHot bandState \<longleftrightarrow> count_list bandState HOT = 1)"
  using assms
  by (simp add: loopBandIsFrozen_iff loopBandIsColdOrFrozen_iff loopBandIsOneHot_iff
      list_all_iff)

theorem band_state_predicates_witness:
  "length [COLD, HOT, FROZEN] < 2 ^ 32
   \<and> \<not> loopBandIsFrozen [COLD, HOT, FROZEN]
   \<and> \<not> loopBandIsColdOrFrozen [COLD, HOT, FROZEN]
   \<and> loopBandIsOneHot [COLD, HOT, FROZEN]
   \<and> count_list [COLD, HOT, FROZEN] HOT = 1"
  using band_state_predicates [of "[COLD, HOT, FROZEN]"] by simp

section \<open>Evaluation rules for rendered numbers\<close>

lemma decimal_small: "n < 10 \<Longrightarrow> decimal n = [digit_char n]"
  by (simp add: decimal.simps)

lemma decimal_large: "10 \<le> n \<Longrightarrow> decimal n = decimal (n div 10) @ [digit_char (n mod 10)]"
  by (subst decimal.simps) simp

lemma replicate_numeral: "replicate (numeral k) x = x # replicate (pred_numeral k) x"
  by (simp add: numeral_eq_Suc)

lemmas render_simps = decimal_small decimal_large digit_char_def string_of_nat_def
  string_of_int_def pad6_def round_scaled_def Let_def replicate_numeral

lemma decimal_nonempty: "decimal n \<noteq> []"
  by (subst decimal.simps) simp

lemma digit_char_in: "d < 10 \<Longrightarrow> digit_char d \<in> digits"
proof -
  assume "d < 10"
  then have "nat d < length ''0123456789''" by simp
  then show ?thesis unfolding digit_char_def digits_def by (rule nth_mem)
qed

lemma decimal_digits: "set (decimal n) \<subseteq> digits"
proof (induction n rule: decimal.induct)
  case (1 n)
  show ?case
  proof (cases "n < 10")
    case True
    then show ?thesis by (simp add: decimal_small digit_char_in)
  next
    case False
    then have "n mod 10 < 10" by simp
    with False 1 show ?thesis by (simp add: decimal_large digit_char_in)
  qed
qed

lemma digit_char_inj:
  assumes "0 \<le> a" "a < 10" "0 \<le> b" "b < 10" "digit_char a = digit_char b"
  shows "a = b"
proof -
  have d: "distinct ''0123456789''" by simp
  have "nat a < length ''0123456789''" "nat b < length ''0123456789''" using assms by simp_all
  with d assms(5) have "nat a = nat b"
    unfolding digit_char_def by (simp only: nth_eq_iff_index_eq)
  with assms show ?thesis by simp
qed

lemma decimal_length_large:
  assumes "10 \<le> n"
  shows "2 \<le> length (decimal n)"
proof -
  have "decimal n = decimal (n div 10) @ [digit_char (n mod 10)]"
    using assms by (rule decimal_large)
  moreover have "1 \<le> length (decimal (n div 10))"
    using decimal_nonempty [of "n div 10"] by (simp add: Suc_le_eq)
  ultimately show ?thesis by simp
qed

lemma decimal_inj: "0 \<le> m \<Longrightarrow> 0 \<le> n \<Longrightarrow> decimal m = decimal n \<Longrightarrow> m = n"
proof (induction m arbitrary: n rule: decimal.induct)
  case (1 m)
  show ?case
  proof (cases "m < 10")
    case True
    then have lm: "length (decimal m) = 1" by (simp add: decimal_small)
    have "n < 10"
    proof (rule ccontr)
      assume "\<not> n < 10"
      then have "2 \<le> length (decimal n)" by (simp add: decimal_length_large)
      with lm 1(4) show False by simp
    qed
    with True 1(2,3,4) show ?thesis
      by (simp add: decimal_small digit_char_inj)
  next
    case False
    then have lm: "2 \<le> length (decimal m)" by (simp add: decimal_length_large)
    have n10: "\<not> n < 10"
    proof
      assume "n < 10"
      then have "length (decimal n) = 1" by (simp add: decimal_small)
      with lm 1(4) show False by simp
    qed
    from False n10 1(4) have eq: "decimal (m div 10) @ [digit_char (m mod 10)]
        = decimal (n div 10) @ [digit_char (n mod 10)]"
      by (simp add: decimal_large)
    then have e1: "decimal (m div 10) = decimal (n div 10)"
      and e2: "digit_char (m mod 10) = digit_char (n mod 10)" by simp_all
    have "m div 10 = n div 10"
      using 1(1) [OF False _ _ e1] 1(2,3) by simp
    moreover have "m mod 10 = n mod 10"
      using e2 by (intro digit_char_inj) simp_all
    ultimately show ?thesis by (metis mult_div_mod_eq)
  qed
qed

lemma string_of_nat_inj: "string_of_nat a = string_of_nat b \<Longrightarrow> a = b"
  unfolding string_of_nat_def using decimal_inj [of "int a" "int b"] by simp

lemma hd_decimal_digit: "hd (decimal n) \<in> digits"
  using decimal_digits [of n] decimal_nonempty [of n] by (cases "decimal n") auto

section \<open>The name table\<close>

lemma literal_string_of_int: "literalName (string_of_int i)"
  using hd_decimal_digit decimal_nonempty
  by (auto simp: literalName_def string_of_int_def)

lemma literal_to_string_double: "literalName (to_string_double (Finite s m e))"
  using hd_decimal_digit decimal_nonempty
  by (auto simp: literalName_def Let_def hd_append)

lemma getName_scalar: "scalarConstant val \<Longrightarrow> literalName (getName st val)"
proof -
  assume sc: "scalarConstant val"
  then obtain k a where d: "definedBy val = ConstantResult k a"
    by (cases "definedBy val") (simp_all add: scalarConstant_def)
  show ?thesis
  proof (cases a)
    case (FloatAttr v)
    show ?thesis
    proof (cases v)
      case (Finite s m e)
      with d FloatAttr show ?thesis
        by (simp add: getName_def literal_to_string_double del: to_string_double.simps)
    next
      case (Infinity s)
      with d FloatAttr show ?thesis by (simp add: getName_def literalName_def)
    next
      case NaN
      with d FloatAttr show ?thesis by (simp add: getName_def literalName_def)
    qed
  next
    case (IntegerAttr i)
    with d show ?thesis by (simp add: getName_def literal_string_of_int)
  next
    case (BoolAttr b)
    with d show ?thesis by (simp add: getName_def literal_string_of_int)
  next
    case (DenseElementsAttr xs)
    with d sc show ?thesis by (simp add: scalarConstant_def)
  next
    case OtherAttr
    with d sc show ?thesis by (simp add: scalarConstant_def)
  qed
qed

lemma getName_nonscalar: "\<not> scalarConstant val \<Longrightarrow> getName st val = lookupName st val"
  by (auto simp: scalarConstant_def getName_def split: definingOp.splits attr.splits)

lemma getName_cases: "getName st val = lookupName st val \<or> literalName (getName st val)"
  using getName_scalar getName_nonscalar by blast

lemma literalName_nonempty: "literalName n \<Longrightarrow> n \<noteq> []"
  by (simp add: literalName_def)

lemma ownName_nonempty: "ownName k n \<Longrightarrow> n \<noteq> []"
  by (auto simp: ownName_def)

lemma not_declared_lookup: "\<not> isDeclared st val \<Longrightarrow> getName st val = [] \<and> lookupName st val = []"
  using getName_cases [of st val] by (auto simp: isDeclared_def literalName_def split: if_splits)

lemma tableInv_entry_nonempty: "tableInv tbl \<Longrightarrow> (v, n) \<in> set tbl \<Longrightarrow> n \<noteq> []"
  unfolding tableInv_def using literalName_nonempty ownName_nonempty by fastforce

lemma not_declared_absent:
  assumes "tableInv (nameTable st)" "\<not> isDeclared st val"
  shows "val \<notin> fst ` set (nameTable st)"
proof
  assume "val \<in> fst ` set (nameTable st)"
  then obtain n where n: "map_of (nameTable st) val = Some n"
    by (metis domD dom_map_of_conv_image_fst)
  then have "(val, n) \<in> set (nameTable st)" by (rule map_of_SomeD)
  with assms(1) have "n \<noteq> []" by (rule tableInv_entry_nonempty)
  moreover from assms(2) n have "n = []"
    using not_declared_lookup [of st val] by (simp add: lookupName_def)
  ultimately show False by simp
qed

lemma update_absent: "k \<notin> fst ` set al \<Longrightarrow> AList.update k v al = al @ [(k, v)]"
  by (induction al) auto

lemma ownName_fresh:
  assumes "tableInv tbl" "ownName (length tbl) n"
  shows "n \<notin> snd ` set tbl"
proof
  assume "n \<in> snd ` set tbl"
  then obtain v where vn: "(v, n) \<in> set tbl" by auto
  with assms(1) have "literalName n \<or> (\<exists>k < length tbl. ownName k n)"
    by (auto simp: tableInv_def)
  then show False
  proof
    assume "literalName n"
    with assms(2) show False by (auto simp: literalName_def ownName_def digits_def)
  next
    assume "\<exists>k < length tbl. ownName k n"
    then obtain k where k: "k < length tbl" "ownName k n" by blast
    with assms(2) have "string_of_nat k = string_of_nat (length tbl)"
      by (auto simp: ownName_def)
    then have "k = length tbl" by (rule string_of_nat_inj)
    with k(1) show False by simp
  qed
qed

lemma tableInv_mono:
  "tableInv tbl \<Longrightarrow> tableInv (tbl @ [(v, n)]) \<longleftrightarrow> (literalName n \<or> (\<exists>k < Suc (length tbl). ownName k n))"
  by (fastforce simp: tableInv_def less_Suc_eq)

lemma addName_result:
  assumes "addName val isPtr st = Inr (valName, st')"
  shows "\<not> isDeclared st val"
    and "valName = (if isPtr then ''*'' else []) @ ''val'' @ string_of_nat (length (nameTable st))"
    and "st' = st\<lparr>nameTable := AList.update val valName (nameTable st)\<rparr>"
  using assms by (auto simp: addName_def Let_def split: if_splits)

lemma addName_ownName:
  "addName val isPtr st = Inr (valName, st') \<Longrightarrow> ownName (length (nameTable st)) valName"
  by (auto simp: ownName_def addName_def Let_def split: if_splits)

lemma addName_inv:
  assumes "tableInv (nameTable st)" "addName val isPtr st = Inr (valName, st')"
  shows "tableInv (nameTable st')"
proof -
  have absent: "val \<notin> fst ` set (nameTable st)"
    using assms(1) addName_result(1) [OF assms(2)] by (rule not_declared_absent)
  have "nameTable st' = nameTable st @ [(val, valName)]"
    using addName_result(3) [OF assms(2)] update_absent [OF absent] by simp
  moreover have "ownName (length (nameTable st)) valName"
    using assms(2) by (rule addName_ownName)
  ultimately show ?thesis
    using assms(1) by (auto simp: tableInv_mono)
qed

lemma addAlias_result:
  assumes "addAlias val alias st = Inr (valName, st')"
  shows "\<not> isDeclared st alias" and "isDeclared st val" and "valName = getName st val"
    and "st' = st\<lparr>nameTable := AList.update alias valName (nameTable st)\<rparr>"
  using assms by (auto simp: addAlias_def Let_def split: if_splits)

lemma addAlias_inv:
  assumes "tableInv (nameTable st)" "addAlias val alias st = Inr (valName, st')"
  shows "tableInv (nameTable st')"
proof -
  note r = addAlias_result [OF assms(2)]
  have absent: "alias \<notin> fst ` set (nameTable st)"
    using assms(1) r(1) by (rule not_declared_absent)
  have tbl: "nameTable st' = nameTable st @ [(alias, valName)]"
    using r(4) update_absent [OF absent] by simp
  have ne: "valName \<noteq> []" using r(2,3) by (simp add: isDeclared_def split: if_splits)
  have "literalName valName \<or> (\<exists>k < length (nameTable st). ownName k valName)"
  proof (cases "literalName valName")
    case False
    with getName_cases [of st val] r(3) have "valName = lookupName st val" by auto
    with ne obtain n where "map_of (nameTable st) val = Some n" "n = valName"
      by (auto simp: lookupName_def split: option.splits)
    then have "(val, valName) \<in> set (nameTable st)" by (auto dest: map_of_SomeD)
    with assms(1) False show ?thesis by (auto simp: tableInv_def)
  qed simp
  with assms(1) tbl show ?thesis by (auto simp: tableInv_mono less_Suc_eq)
qed

lemma runOps_inv: "tableInv (nameTable st) \<Longrightarrow> runOps ops st = Inr st' \<Longrightarrow> tableInv (nameTable st')"
proof (induction ops arbitrary: st)
  case Nil
  then show ?case by simp
next
  case (Cons op ops)
  show ?case
  proof (cases op)
    case (AddName val isPtr)
    with Cons.prems(2) obtain n s where s: "addName val isPtr st = Inr (n, s)" "runOps ops s = Inr st'"
      by (auto split: sum.splits)
    from Cons.prems(1) s(1) have "tableInv (nameTable s)" by (rule addName_inv)
    then show ?thesis using s(2) by (rule Cons.IH)
  next
    case (AddAlias val ali)
    with Cons.prems(2) obtain n s where s: "addAlias val ali st = Inr (n, s)" "runOps ops s = Inr st'"
      by (auto split: sum.splits)
    from Cons.prems(1) s(1) have "tableInv (nameTable s)" by (rule addAlias_inv)
    then show ?thesis using s(2) by (rule Cons.IH)
  qed
qed

lemma tableInv_initial: "tableInv (nameTable initialState)"
  by (simp add: tableInv_def initialState_def)

lemma not_declared_nonscalar: "\<not> isDeclared st val \<Longrightarrow> \<not> scalarConstant val"
  using getName_scalar [of val st] by (auto simp: isDeclared_def literalName_def split: if_splits)

lemma getName_after_update:
  assumes "\<not> isDeclared st val"
  shows "getName (st\<lparr>nameTable := AList.update val n (nameTable st)\<rparr>) val = n"
proof -
  have "\<not> scalarConstant val" using assms by (rule not_declared_nonscalar)
  then show ?thesis by (simp add: getName_nonscalar lookupName_def update_conv')
qed


section \<open>State components that emission steps leave alone\<close>

lemma getName_table: "nameTable a = nameTable b \<Longrightarrow> getName a val = getName b val"
  by (auto simp: getName_def lookupName_def split: definingOp.splits attr.splits)

lemma isDeclared_table: "nameTable a = nameTable b \<Longrightarrow> isDeclared a val = isDeclared b val"
  by (simp add: isDeclared_def getName_table [of a b])

lemma typeText_table: "typeText val t st = Inr st1 \<Longrightarrow> nameTable st1 = nameTable st"
  by (auto simp: typeText_def print_def emitErrorAtDefiningOp_def emitError_def
      split: option.splits definingOp.splits)

lemma typeText_os:
  "typeText val t st = Inr st1 \<Longrightarrow> typeName t = Some tn \<Longrightarrow> st1 = print tn st"
  by (simp add: typeText_def)

lemma emitValue_names_before_use:
  assumes "emitValue val rank isPtr st = Inr st'"
  shows "isDeclared st' val \<and> suffix (getName st' val @ idxSuffix rank) (os st')"
proof (cases "isDeclared st val")
  case True
  with assms have st': "st' = print (getName st val @ idxSuffix rank) st"
    by (simp add: emitValue_def split: if_splits)
  have t: "nameTable st' = nameTable st" by (simp add: st' print_def)
  from True t have "isDeclared st' val" by (simp add: isDeclared_table [OF t])
  moreover have "os st' = os st @ getName st' val @ idxSuffix rank"
    by (simp add: getName_table [OF t]) (simp add: st' print_def)
  ultimately show ?thesis by (simp add: suffix_def)
next
  case False
  with assms obtain st1 valName st2 where
    tt: "typeText val (case valueType val of ShapedType a \<Rightarrow> elementType a | ScalarType t \<Rightarrow> t) st
           = Inr st1"
    and an: "addName val isPtr st1 = Inr (valName, st2)"
    and st': "st' = print (valName @ idxSuffix rank) st2"
    by (auto simp: emitValue_def Let_def split: if_splits sum.splits)
  have nd: "\<not> isDeclared st1 val"
    using False isDeclared_table [OF typeText_table [OF tt]] by simp
  have st2: "st2 = st1\<lparr>nameTable := AList.update val valName (nameTable st1)\<rparr>"
    using an by (rule addName_result(3))
  have g2: "getName st2 val = valName"
    unfolding st2 using nd by (rule getName_after_update)
  have t: "nameTable st' = nameTable st2" by (simp add: st' print_def)
  have g: "getName st' val = valName" using g2 getName_table [OF t] by simp
  have "valName \<noteq> []" using addName_ownName [OF an] by (rule ownName_nonempty)
  with g have "isDeclared st' val" by (simp add: isDeclared_def)
  moreover have "os st' = os st2 @ getName st' val @ idxSuffix rank"
    by (simp add: g) (simp add: st' print_def)
  ultimately show ?thesis by (simp add: suffix_def)
qed

section \<open>C3: the name table\<close>

lemma reachable_inv:
  assumes "runOps ops initialState = Inr st0" "nameTable st = nameTable st0"
  shows "tableInv (nameTable st)"
  using runOps_inv [OF tableInv_initial assms(1)] assms(2) by simp

lemma addName_fresh:
  assumes "tableInv (nameTable st)" "addName val isPtr st = Inr (valName, st')"
  shows "valName = (if isPtr then ''*'' else []) @ ''val'' @ string_of_nat (length (nameTable st))
       \<and> valName \<notin> snd ` set (nameTable st)
       \<and> length (nameTable st') = Suc (length (nameTable st))
       \<and> getName st' val = valName"
proof -
  note r = addName_result [OF assms(2)]
  have absent: "val \<notin> fst ` set (nameTable st)"
    using assms(1) r(1) by (rule not_declared_absent)
  have "valName \<notin> snd ` set (nameTable st)"
    using assms(1) addName_ownName [OF assms(2)] by (rule ownName_fresh)
  moreover have "length (nameTable st') = Suc (length (nameTable st))"
    using r(3) update_absent [OF absent] by simp
  moreover have "getName st' val = valName"
    unfolding r(3) using r(1) by (rule getName_after_update)
  ultimately show ?thesis using r(2) by simp
qed

lemma addAlias_shares:
  assumes "addAlias val ali st = Inr (valName, st')"
  shows "valName = getName st val \<and> getName st' ali = valName"
proof -
  note r = addAlias_result [OF assms]
  have "getName st' ali = valName"
    unfolding r(4) using r(1) by (rule getName_after_update)
  with r(3) show ?thesis by simp
qed

lemma table_append:
  assumes "tableInv (nameTable st)" and "\<not> isDeclared st val"
  shows "AList.update val n (nameTable st) = nameTable st @ [(val, n)]"
  using update_absent [OF not_declared_absent [OF assms]] .

lemma runOps_shared_names:
  assumes "runOps ops st = Inr st'" and "tableInv (nameTable st)"
    and "\<forall>v w n. (v, n) \<in> set (nameTable st) \<and> (w, n) \<in> set (nameTable st) \<and> v \<noteq> w \<longrightarrow>
           v \<in> A \<or> w \<in> A"
  shows "\<forall>v w n. (v, n) \<in> set (nameTable st') \<and> (w, n) \<in> set (nameTable st') \<and> v \<noteq> w \<longrightarrow>
           v \<in> A \<or> w \<in> A \<or> (\<exists>x. AddAlias x v \<in> set ops) \<or> (\<exists>x. AddAlias x w \<in> set ops)"
  using assms
proof (induction ops arbitrary: st A)
  case Nil
  from Nil(1) have "st' = st" by simp
  with Nil(3) show ?case by simp
next
  case (Cons op ops)
  show ?case
  proof (cases op)
    case (AddName val isPtr)
    with Cons.prems(1) obtain m s where s: "addName val isPtr st = Inr (m, s)"
      and rest: "runOps ops s = Inr st'"
      by (auto split: sum.splits)
    have inv: "tableInv (nameTable s)" using Cons.prems(2) s by (rule addName_inv)
    have tbl: "set (nameTable s) = insert (val, m) (set (nameTable st))"
      using addName_result(3) [OF s] table_append [OF Cons.prems(2) addName_result(1) [OF s]]
      by simp
    have fresh: "m \<notin> snd ` set (nameTable st)"
      using Cons.prems(2) addName_ownName [OF s] by (rule ownName_fresh)
    have nofresh: "(c, m) \<notin> set (nameTable st)" for c
    proof
      assume "(c, m) \<in> set (nameTable st)"
      then have "snd (c, m) \<in> snd ` set (nameTable st)" by (rule imageI)
      with fresh show False by simp
    qed
    have step: "\<forall>a b k. (a, k) \<in> set (nameTable s) \<and> (b, k) \<in> set (nameTable s) \<and> a \<noteq> b \<longrightarrow>
        a \<in> A \<or> b \<in> A"
    proof (intro allI impI)
      fix a b k
      assume h: "(a, k) \<in> set (nameTable s) \<and> (b, k) \<in> set (nameTable s) \<and> a \<noteq> b"
      show "a \<in> A \<or> b \<in> A"
      proof (cases "k = m")
        case True
        with h tbl nofresh [of a] nofresh [of b] show ?thesis by auto
      next
        case False
        with h tbl have "(a, k) \<in> set (nameTable st) \<and> (b, k) \<in> set (nameTable st) \<and> a \<noteq> b"
          by simp
        from Cons.prems(3) [rule_format, OF this] show ?thesis .
      qed
    qed
    have ih: "\<forall>v w n. (v, n) \<in> set (nameTable st') \<and> (w, n) \<in> set (nameTable st') \<and> v \<noteq> w \<longrightarrow>
           v \<in> A \<or> w \<in> A \<or> (\<exists>x. AddAlias x v \<in> set ops) \<or> (\<exists>x. AddAlias x w \<in> set ops)"
      using rest inv step by (rule Cons.IH)
    show ?thesis
    proof (intro allI impI)
      fix v w n
      assume "(v, n) \<in> set (nameTable st') \<and> (w, n) \<in> set (nameTable st') \<and> v \<noteq> w"
      from ih [rule_format, OF this]
      show "v \<in> A \<or> w \<in> A \<or> (\<exists>x. AddAlias x v \<in> set (op # ops))
          \<or> (\<exists>x. AddAlias x w \<in> set (op # ops))" by auto
    qed
  next
    case (AddAlias x y)
    with Cons.prems(1) obtain m s where s: "addAlias x y st = Inr (m, s)"
      and rest: "runOps ops s = Inr st'"
      by (auto split: sum.splits)
    have inv: "tableInv (nameTable s)" using Cons.prems(2) s by (rule addAlias_inv)
    have tbl: "set (nameTable s) = insert (y, m) (set (nameTable st))"
      using addAlias_result(4) [OF s] table_append [OF Cons.prems(2) addAlias_result(1) [OF s]]
      by simp
    have step: "\<forall>a b k. (a, k) \<in> set (nameTable s) \<and> (b, k) \<in> set (nameTable s) \<and> a \<noteq> b \<longrightarrow>
        a \<in> insert y A \<or> b \<in> insert y A"
    proof (intro allI impI)
      fix a b k
      assume h: "(a, k) \<in> set (nameTable s) \<and> (b, k) \<in> set (nameTable s) \<and> a \<noteq> b"
      show "a \<in> insert y A \<or> b \<in> insert y A"
      proof (cases "a = y \<or> b = y")
        case True
        then show ?thesis by auto
      next
        case False
        with h tbl have "(a, k) \<in> set (nameTable st) \<and> (b, k) \<in> set (nameTable st) \<and> a \<noteq> b"
          by simp
        from Cons.prems(3) [rule_format, OF this] show ?thesis by auto
      qed
    qed
    have ih: "\<forall>v w n. (v, n) \<in> set (nameTable st') \<and> (w, n) \<in> set (nameTable st') \<and> v \<noteq> w \<longrightarrow>
           v \<in> insert y A \<or> w \<in> insert y A
           \<or> (\<exists>x. AddAlias x v \<in> set ops) \<or> (\<exists>x. AddAlias x w \<in> set ops)"
      using rest inv step by (rule Cons.IH)
    show ?thesis
    proof (intro allI impI)
      fix v w n
      assume "(v, n) \<in> set (nameTable st') \<and> (w, n) \<in> set (nameTable st') \<and> v \<noteq> w"
      from ih [rule_format, OF this]
      have "v \<in> A \<or> w \<in> A \<or> AddAlias x y = AddAlias x v \<or> AddAlias x y = AddAlias x w
        \<or> (\<exists>x. AddAlias x v \<in> set ops) \<or> (\<exists>x. AddAlias x w \<in> set ops)" by auto
      then show "v \<in> A \<or> w \<in> A \<or> (\<exists>x. AddAlias x v \<in> set (op # ops))
          \<or> (\<exists>x. AddAlias x w \<in> set (op # ops))" unfolding AddAlias by auto
    qed
  qed
qed

lemma run_shared_names:
  assumes "runOps ops initialState = Inr st0" and "nameTable st = nameTable st0"
    and "(v, n) \<in> set (nameTable st) \<and> (w, n) \<in> set (nameTable st) \<and> v \<noteq> w"
  shows "(\<exists>x. AddAlias x v \<in> set ops) \<or> (\<exists>x. AddAlias x w \<in> set ops)"
proof -
  have "\<forall>v w n. (v, n) \<in> set (nameTable initialState) \<and> (w, n) \<in> set (nameTable initialState)
          \<and> v \<noteq> w \<longrightarrow> v \<in> {} \<or> w \<in> {}"
    by (simp add: initialState_def)
  from runOps_shared_names [OF assms(1) tableInv_initial this]
  have "\<forall>v w n. (v, n) \<in> set (nameTable st0) \<and> (w, n) \<in> set (nameTable st0) \<and> v \<noteq> w \<longrightarrow>
           v \<in> {} \<or> w \<in> {} \<or> (\<exists>x. AddAlias x v \<in> set ops) \<or> (\<exists>x. AddAlias x w \<in> set ops)" .
  from this [rule_format, of v n w] assms(2,3) show ?thesis by simp
qed

lemma unnamed_operand_text:
  assumes "pos < length operands" and "\<not> isDeclared st (operands ! pos)"
  shows "emitAffineExpr st numDim operands (AffineDimExpr pos) = Inr []"
  using assms not_declared_lookup [of st "operands ! pos"] by simp

text \<open>C3, amended. In the table of an emission run (any sequence of \<open>addName\<close> and \<open>addAlias\<close>
  calls on the empty table): the name \<open>addName\<close> assigns is valN, or *valN for a pointer, with
  N the size of the table, it is carried by no entry of the table, and the table grows by one
  entry; \<open>addAlias\<close> gives its second argument the name of its first; two distinct values of
  the table carry the same name only when one of them was entered by \<open>addAlias\<close>. A value that
  \<open>emitValue\<close> writes is declared afterwards, the text written ending with the name the table
  then holds for it; the printer of affine expressions reads \<open>getName\<close> without any check and
  writes the empty text for an operand that is not in the table.\<close>

theorem name_table_fresh_names:
  assumes "runOps ops initialState = Inr st0" and "nameTable st = nameTable st0"
  shows "(\<forall>val isPtr valName st'. addName val isPtr st = Inr (valName, st') \<longrightarrow>
            valName = (if isPtr then ''*'' else []) @ ''val'' @ string_of_nat (length (nameTable st))
          \<and> valName \<notin> snd ` set (nameTable st)
          \<and> length (nameTable st') = Suc (length (nameTable st))
          \<and> getName st' val = valName)
       \<and> (\<forall>val ali valName st'. addAlias val ali st = Inr (valName, st') \<longrightarrow>
            valName = getName st val \<and> getName st' ali = valName)
       \<and> (\<forall>v w n. (v, n) \<in> set (nameTable st) \<and> (w, n) \<in> set (nameTable st) \<and> v \<noteq> w \<longrightarrow>
            (\<exists>x. AddAlias x v \<in> set ops) \<or> (\<exists>x. AddAlias x w \<in> set ops))
       \<and> (\<forall>val rank isPtr st'. emitValue val rank isPtr st = Inr st' \<longrightarrow>
            isDeclared st' val \<and> suffix (getName st' val @ idxSuffix rank) (os st'))
       \<and> (\<forall>numDim operands pos. pos < length operands \<and> \<not> isDeclared st (operands ! pos) \<longrightarrow>
            emitAffineExpr st numDim operands (AffineDimExpr pos) = Inr [])"
proof -
  have "\<forall>v w n. (v, n) \<in> set (nameTable st) \<and> (w, n) \<in> set (nameTable st) \<and> v \<noteq> w \<longrightarrow>
            (\<exists>x. AddAlias x v \<in> set ops) \<or> (\<exists>x. AddAlias x w \<in> set ops)"
    by (intro allI impI) (rule run_shared_names [OF assms])
  moreover have "\<forall>numDim operands pos. pos < length operands \<and> \<not> isDeclared st (operands ! pos) \<longrightarrow>
            emitAffineExpr st numDim operands (AffineDimExpr pos) = Inr []"
    using unnamed_operand_text by blast
  moreover have "\<forall>val isPtr valName st'. addName val isPtr st = Inr (valName, st') \<longrightarrow>
            valName = (if isPtr then ''*'' else []) @ ''val'' @ string_of_nat (length (nameTable st))
          \<and> valName \<notin> snd ` set (nameTable st)
          \<and> length (nameTable st') = Suc (length (nameTable st))
          \<and> getName st' val = valName"
    using addName_fresh [OF reachable_inv [OF assms]] by blast
  moreover have "\<forall>val ali valName st'. addAlias val ali st = Inr (valName, st') \<longrightarrow>
            valName = getName st val \<and> getName st' ali = valName"
    using addAlias_shares by blast
  moreover have "\<forall>val rank isPtr st'. emitValue val rank isPtr st = Inr st' \<longrightarrow>
            isDeclared st' val \<and> suffix (getName st' val @ idxSuffix rank) (os st')"
    using emitValue_names_before_use by blast
  ultimately show ?thesis by blast
qed

lemmas emit_simps = ok_def print_def indent_def addIndent_def reduceIndent_def emitValue_def
  typeText_def typeName_def addName_def addAlias_def isDeclared_def getName_def lookupName_def
  emitArrayDecl_def hasStaticShape_def shapeText_def emitInfoAndNewLine_def infoText_def
  getIntegerAttr_def emitError_def emitErrorAtDefiningOp_def emitArrayPragmas_def
  emitResourcePragma_def coreText_def idxSuffix_def tab_def newline_def initialState_def
  exampleEnv_def plainInfo_def

lemma run_example:
  "runOps [AddName exampleTensor False, AddAlias exampleTensor exampleMemref] initialState
     = Inr (initialState\<lparr>nameTable := [(exampleTensor, ''val0''), (exampleMemref, ''val0'')]\<rparr>)"
  by (simp add: emit_simps render_simps exampleTensor_def exampleMemref_def)

theorem name_table_fresh_names_witness:
  "runOps [AddName exampleTensor False, AddAlias exampleTensor exampleMemref] initialState
     = Inr (initialState\<lparr>nameTable := [(exampleTensor, ''val0''), (exampleMemref, ''val0'')]\<rparr>)
   \<and> addName exampleScalar True
        (initialState\<lparr>nameTable := [(exampleTensor, ''val0''), (exampleMemref, ''val0'')]\<rparr>)
       = Inr (''*val2'', initialState\<lparr>nameTable :=
                [(exampleTensor, ''val0''), (exampleMemref, ''val0''), (exampleScalar, ''*val2'')]\<rparr>)
   \<and> ''*val2'' \<notin> snd ` set [(exampleTensor, ''val0''), (exampleMemref, ''val0'')]"
proof -
  let ?S = "initialState\<lparr>nameTable := [(exampleTensor, ''val0''), (exampleMemref, ''val0'')]\<rparr>"
  have run: "runOps [AddName exampleTensor False, AddAlias exampleTensor exampleMemref] initialState
     = Inr ?S" by (rule run_example)
  have an: "addName exampleScalar True ?S = Inr (''*val2'', initialState\<lparr>nameTable :=
                [(exampleTensor, ''val0''), (exampleMemref, ''val0''), (exampleScalar, ''*val2'')]\<rparr>)"
    by (simp add: emit_simps render_simps exampleTensor_def exampleMemref_def exampleScalar_def)
  have "''*val2'' \<notin> snd ` set (nameTable ?S)"
    using name_table_fresh_names [OF run refl] an by blast
  with run an show ?thesis by simp
qed

theorem unnamed_operand_written_counterexample:
  "emitAffineFor exampleEnv (plainInfo 7) exampleIndex
       \<lparr>numDims = 1, mapResults = [AffineDimExpr 0]\<rparr> [boundOperand] (constantMap 16) [] 1 []
       initialState
     = Inr (initialState\<lparr>os := ''for (int val0 = ; val0 < 16; val0 += 1) {'' @ tab @ ''//'' @ newline
                @ ''}'' @ newline,
              nameTable := [(exampleIndex, ''val0'')]\<rparr>)
   \<and> \<not> scalarConstant boundOperand
   \<and> boundOperand \<notin> fst ` set [(exampleIndex, ''val0'')]"
  by (simp add: affineForOpening_def emitBound_def constantMap_def exampleIndex_def
      boundOperand_def scalarConstant_def emitPipelinePragma_def getIntAttrValue_def forTail_def
      emit_simps render_simps)


section \<open>C4 and C9: scalar constants\<close>














lemma isDeclared_updates [simp]:
  "isDeclared (st\<lparr>os := x\<rparr>) v = isDeclared st v"
  "isDeclared (st\<lparr>encounteredError := b\<rparr>) v = isDeclared st v"
  "isDeclared (st\<lparr>diagnostics := d\<rparr>) v = isDeclared st v"
  "isDeclared (st\<lparr>currentIndent := i\<rparr>) v = isDeclared st v"
  by (rule isDeclared_table, simp)+

lemma chain_end [simp]: "(case m of Inl e \<Rightarrow> Inl e | Inr x \<Rightarrow> chain [] x) = m"
  by (cases m) simp_all

lemma idxSuffix_0 [simp]: "idxSuffix 0 = []"
  by (simp add: idxSuffix_def)






section \<open>C6: operations that no dispatcher matches\<close>

lemma exprVisitor_unmatched:
  "\<not> inHLSCppCatalogue name \<Longrightarrow> exprVisitor E (OtherOp name info operands results) st = Inr (False, st)"
  by (cases name) (simp_all add: exprVisitor_def inHLSCppCatalogue_def)

text \<open>C6. An operation of neither catalogue, matched by none of the three dispatchers: the
  third dispatcher ends the process after the diagnostic of \<open>visitInvalidOp\<close>; the failure
  flag is not set, the error of \<open>emitBlock\<close> is not reached and no sibling is emitted.\<close>

theorem emitBlock_unregistered_op_aborts:
  "emitBlock E (OtherOp (Unregistered n) info operands results # block) st
     = Inl (Aborted (st\<lparr>diagnostics := diagnostics st @ [(opId info, ''is unsupported operation.'')]\<rparr>))"
  by (simp add: exprVisitor_unmatched inHLSCppCatalogue_def stmtHandles_def stmtIgnores_def
      ipVisitor_def kernelVisitInvalidOp_def)

text \<open>An operation of the kernel catalogue that the IP visitor does not override is the one
  case that reaches the error of \<open>emitBlock\<close>: the flag is set and the siblings follow.\<close>

lemma emitBlock_unhandled_kernel_op_continues:
  assumes "inHLSKernelCatalogue (HLSKernel k)" and "\<not> ipHandles k"
  shows "emitBlock E (OtherOp (HLSKernel k) info operands results # block) st
     = emitBlock E block (emitError (opId info) ''can't be correctly emitted.'' st)"
  using assms
  by (simp add: exprVisitor_unmatched inHLSCppCatalogue_def stmtHandles_def stmtIgnores_def
      ipVisitor_def opInfoOf_def)

section \<open>C7: array declarations of alloc\<close>

lemma declared_after_addName:
  assumes "\<not> isDeclared st r"
  shows "isDeclared (st\<lparr>nameTable := AList.update r (p @ ''val'' @ n) (nameTable st)\<rparr>) r"
  using getName_after_update [OF assms, of "p @ ''val'' @ n"] by (simp add: isDeclared_def)

lemma emitAlloc_undeclared:
  assumes "valueType r = ShapedType t" and "definedBy r = OpResult k" and "\<not> isDeclared st r"
  shows "emitAlloc E info r st =
     emitArrayPragmas E r
       (st\<lparr>os := os st @ replicate (unat (currentIndent st)) (CHR '' '')
                @ (case typeName (elementType t) of Some tn \<Rightarrow> tn | None \<Rightarrow> [])
                @ (if hasStaticShape t
                   then ''val'' @ string_of_nat (length (nameTable st))
                        @ shapeText (case shape t of Some dims \<Rightarrow> dims | None \<Rightarrow> [])
                   else ''*val'' @ string_of_nat (length (nameTable st)))
                @ '';'' @ infoText info,
           encounteredError := encounteredError st \<or> \<not> hasStaticShape t
                \<or> typeName (elementType t) = None,
           nameTable := AList.update r
                ((if hasStaticShape t then [] else ''*'') @ ''val''
                   @ string_of_nat (length (nameTable st))) (nameTable st),
           diagnostics := diagnostics st
                @ (if hasStaticShape t then []
                   else [(opId info, ''is unranked or has dynamic shape.'')])
                @ (if typeName (elementType t) = None then [(k, ''has unsupported type.'')]
                   else [])\<rparr>)"
proof (cases "typeName (elementType t)")
  case None
  show ?thesis
  proof (cases "hasStaticShape t")
    case True
    with assms None show ?thesis
      apply (simp add: emitAlloc_def emitArrayDecl_def emitValue_def typeText_def addName_def
          ok_def print_def indent_def emitInfoAndNewLine_def emitErrorAtDefiningOp_def
          emitError_def Let_def)
      apply (rule arg_cong [where f = "emitArrayPragmas E r"])
      apply (rule emitterState.equality)
      apply simp_all
      done
  next
    case False
    with assms None show ?thesis
      apply (simp add: emitAlloc_def emitArrayDecl_def emitValue_def typeText_def addName_def
          ok_def print_def indent_def emitInfoAndNewLine_def emitErrorAtDefiningOp_def
          emitError_def Let_def)
      apply (rule arg_cong [where f = "emitArrayPragmas E r"])
      apply (rule emitterState.equality)
      apply simp_all
      done
  qed
next
  case (Some tn)
  show ?thesis
  proof (cases "hasStaticShape t")
    case True
    with assms Some show ?thesis
      apply (simp add: emitAlloc_def emitArrayDecl_def emitValue_def typeText_def addName_def
          ok_def print_def indent_def emitInfoAndNewLine_def Let_def)
      apply (rule arg_cong [where f = "emitArrayPragmas E r"])
      apply (rule emitterState.equality)
      apply simp_all
      done
  next
    case False
    with assms Some show ?thesis
      apply (simp add: emitAlloc_def emitArrayDecl_def emitValue_def typeText_def addName_def
          ok_def print_def indent_def emitInfoAndNewLine_def emitError_def Let_def)
      apply (rule arg_cong [where f = "emitArrayPragmas E r"])
      apply (rule emitterState.equality)
      apply simp_all
      done
  qed
qed

lemma returned_dynamic_alloc:
  assumes "valueType r = ShapedType t" and "\<not> isDeclared st r" and "\<not> hasStaticShape t"
    and "typeName (elementType t) = Some tn"
  shows "chain [emitFunctionResult r, emitAlloc E info r] st =
     Inr (st\<lparr>os := os st @ '','' @ newline @ replicate (unat (currentIndent st)) (CHR '' '')
                   @ tn @ ''*val'' @ string_of_nat (length (nameTable st)),
              nameTable := AList.update r (''*val'' @ string_of_nat (length (nameTable st)))
                             (nameTable st)\<rparr>)"
proof -
  let ?s1 = "st\<lparr>os := os st @ '','' @ newline @ replicate (unat (currentIndent st)) (CHR '' '')
                   @ tn @ ''*val'' @ string_of_nat (length (nameTable st)),
              nameTable := AList.update r (''*val'' @ string_of_nat (length (nameTable st)))
                             (nameTable st)\<rparr>"
  have 1: "emitFunctionResult r st = Inr ?s1"
    using assms
    by (simp add: emitFunctionResult_def emitArrayDecl_def emitValue_def typeText_def
        addName_def ok_def print_def indent_def Let_def)
  have "isDeclared ?s1 r
      = isDeclared (st\<lparr>nameTable := AList.update r (''*'' @ ''val''
            @ string_of_nat (length (nameTable st))) (nameTable st)\<rparr>) r"
    by (rule isDeclared_table) simp
  then have "isDeclared ?s1 r"
    using declared_after_addName [OF assms(2), of "''*''" "string_of_nat (length (nameTable st))"]
    by simp
  then have 2: "emitAlloc E info r ?s1 = Inr ?s1" by (simp add: emitAlloc_def)
  from 1 2 show ?thesis by simp
qed

text \<open>C7, amended. For an alloc whose result is not yet declared: when the type has no
  static shape the emitter reports the error at the operation and sets the failure flag, and
  still writes a declaration of the array, as a pointer with no extent at all; when the
  shape is static the declaration carries one bracketed extent per dimension; an element
  type without a name adds its own error and leaves the type out. The array pragmas follow
  in each case. For an alloc whose result is already declared nothing is written and nothing
  reported: an array without static shape that the function returns is declared in the
  signature as a pointer, and its alloc then passes without any error.\<close>

theorem emitAlloc_declaration:
  assumes "valueType r = ShapedType t" and "definedBy r = OpResult k"
  shows "(isDeclared st r \<longrightarrow> emitAlloc E info r st = Inr st)
   \<and> (\<not> isDeclared st r \<longrightarrow>
        emitAlloc E info r st =
          emitArrayPragmas E r
            (st\<lparr>os := os st @ replicate (unat (currentIndent st)) (CHR '' '')
                     @ (case typeName (elementType t) of Some tn \<Rightarrow> tn | None \<Rightarrow> [])
                     @ (if hasStaticShape t
                        then ''val'' @ string_of_nat (length (nameTable st))
                             @ shapeText (case shape t of Some dims \<Rightarrow> dims | None \<Rightarrow> [])
                        else ''*val'' @ string_of_nat (length (nameTable st)))
                     @ '';'' @ infoText info,
                encounteredError := encounteredError st \<or> \<not> hasStaticShape t
                     \<or> typeName (elementType t) = None,
                nameTable := AList.update r
                     ((if hasStaticShape t then [] else ''*'') @ ''val''
                        @ string_of_nat (length (nameTable st))) (nameTable st),
                diagnostics := diagnostics st
                     @ (if hasStaticShape t then []
                        else [(opId info, ''is unranked or has dynamic shape.'')])
                     @ (if typeName (elementType t) = None then [(k, ''has unsupported type.'')]
                        else [])\<rparr>))
   \<and> (\<not> isDeclared st r \<and> \<not> hasStaticShape t \<and> typeName (elementType t) = Some tn \<longrightarrow>
        chain [emitFunctionResult r, emitAlloc E info r] st =
          Inr (st\<lparr>os := os st @ '','' @ newline @ replicate (unat (currentIndent st)) (CHR '' '')
                        @ tn @ ''*val'' @ string_of_nat (length (nameTable st)),
                   nameTable := AList.update r (''*val'' @ string_of_nat (length (nameTable st)))
                                  (nameTable st)\<rparr>))"
proof (intro conjI impI)
  assume "isDeclared st r"
  then show "emitAlloc E info r st = Inr st" by (simp add: emitAlloc_def)
next
  assume "\<not> isDeclared st r"
  with assms show "emitAlloc E info r st =
          emitArrayPragmas E r
            (st\<lparr>os := os st @ replicate (unat (currentIndent st)) (CHR '' '')
                     @ (case typeName (elementType t) of Some tn \<Rightarrow> tn | None \<Rightarrow> [])
                     @ (if hasStaticShape t
                        then ''val'' @ string_of_nat (length (nameTable st))
                             @ shapeText (case shape t of Some dims \<Rightarrow> dims | None \<Rightarrow> [])
                        else ''*val'' @ string_of_nat (length (nameTable st)))
                     @ '';'' @ infoText info,
                encounteredError := encounteredError st \<or> \<not> hasStaticShape t
                     \<or> typeName (elementType t) = None,
                nameTable := AList.update r
                     ((if hasStaticShape t then [] else ''*'') @ ''val''
                        @ string_of_nat (length (nameTable st))) (nameTable st),
                diagnostics := diagnostics st
                     @ (if hasStaticShape t then []
                        else [(opId info, ''is unranked or has dynamic shape.'')])
                     @ (if typeName (elementType t) = None then [(k, ''has unsupported type.'')]
                        else [])\<rparr>)"
    by (rule emitAlloc_undeclared)
next
  assume "\<not> isDeclared st r \<and> \<not> hasStaticShape t \<and> typeName (elementType t) = Some tn"
  then have h: "\<not> isDeclared st r" "\<not> hasStaticShape t" "typeName (elementType t) = Some tn"
    by simp_all
  show "chain [emitFunctionResult r, emitAlloc E info r] st =
          Inr (st\<lparr>os := os st @ '','' @ newline @ replicate (unat (currentIndent st)) (CHR '' '')
                        @ tn @ ''*val'' @ string_of_nat (length (nameTable st)),
                   nameTable := AList.update r (''*val'' @ string_of_nat (length (nameTable st)))
                                  (nameTable st)\<rparr>)"
    by (rule returned_dynamic_alloc [OF assms(1) h])
qed

theorem emitAlloc_declaration_witness:
  "emitAlloc exampleEnv (plainInfo 4) staticMemref initialState =
     Inr (initialState\<lparr>os := ''float val0[16][8];'' @ tab @ ''//'' @ newline,
            nameTable := [(staticMemref, ''val0'')]\<rparr>)"
proof -
  have 1: "valueType staticMemref = ShapedType \<lparr>shapedKind = MemRefType,
      elementType = Float32Type, shape = Some [16, 8], memorySpace = 4\<rparr>"
    by (simp add: staticMemref_def)
  have 2: "definedBy staticMemref = OpResult 4" by (simp add: staticMemref_def)
  have 3: "\<not> isDeclared initialState staticMemref"
    by (simp add: emit_simps staticMemref_def)
  from emitAlloc_declaration [OF 1 2, of initialState exampleEnv "plainInfo 4"] 3
  have "emitAlloc exampleEnv (plainInfo 4) staticMemref initialState =
          emitArrayPragmas exampleEnv staticMemref
            (initialState\<lparr>os := os initialState
                     @ replicate (unat (currentIndent initialState)) (CHR '' '')
                     @ (case typeName (elementType \<lparr>shapedKind = MemRefType,
                            elementType = Float32Type, shape = Some [16, 8], memorySpace = 4\<rparr>) of
                          Some tn \<Rightarrow> tn | None \<Rightarrow> [])
                     @ (if hasStaticShape \<lparr>shapedKind = MemRefType,
                            elementType = Float32Type, shape = Some [16, 8], memorySpace = 4\<rparr>
                        then ''val'' @ string_of_nat (length (nameTable initialState))
                             @ shapeText (case shape \<lparr>shapedKind = MemRefType,
                                 elementType = Float32Type, shape = Some [16, 8], memorySpace = 4\<rparr> of
                                   Some dims \<Rightarrow> dims | None \<Rightarrow> [])
                        else ''*val'' @ string_of_nat (length (nameTable initialState)))
                     @ '';'' @ infoText (plainInfo 4),
                encounteredError := encounteredError initialState
                     \<or> \<not> hasStaticShape \<lparr>shapedKind = MemRefType,
                            elementType = Float32Type, shape = Some [16, 8], memorySpace = 4\<rparr>
                     \<or> typeName (elementType \<lparr>shapedKind = MemRefType,
                            elementType = Float32Type, shape = Some [16, 8], memorySpace = 4\<rparr>) = None,
                nameTable := AList.update staticMemref
                     ((if hasStaticShape \<lparr>shapedKind = MemRefType,
                            elementType = Float32Type, shape = Some [16, 8], memorySpace = 4\<rparr>
                       then [] else ''*'') @ ''val''
                        @ string_of_nat (length (nameTable initialState))) (nameTable initialState),
                diagnostics := diagnostics initialState
                     @ (if hasStaticShape \<lparr>shapedKind = MemRefType,
                            elementType = Float32Type, shape = Some [16, 8], memorySpace = 4\<rparr>
                        then []
                        else [(opId (plainInfo 4), ''is unranked or has dynamic shape.'')])
                     @ (if typeName (elementType \<lparr>shapedKind = MemRefType,
                            elementType = Float32Type, shape = Some [16, 8], memorySpace = 4\<rparr>) = None
                        then [(4, ''has unsupported type.'')]
                        else [])\<rparr>)"
    by blast
  then show ?thesis
    by (simp add: emit_simps render_simps staticMemref_def)
qed

theorem dynamic_alloc_declared_counterexample:
  "emitAlloc exampleEnv (plainInfo 3) dynamicMemref initialState =
     Inr (initialState\<lparr>os := ''float *val0;'' @ tab @ ''//'' @ newline
                @ ''#pragma HLS resource variable=*val0 core=ram_1p_bram'' @ newline @ newline,
            encounteredError := True,
            nameTable := [(dynamicMemref, ''*val0'')],
            diagnostics := [(3, ''is unranked or has dynamic shape.'')]\<rparr>)
   \<and> chain [emitFunctionResult dynamicMemref, emitAlloc exampleEnv (plainInfo 3) dynamicMemref]
        initialState =
     Inr (initialState\<lparr>os := '','' @ newline @ ''float *val0'',
            nameTable := [(dynamicMemref, ''*val0'')]\<rparr>)"
  by (simp add: emitAlloc_def emitFunctionResult_def emit_simps render_simps dynamicMemref_def)


section \<open>C5: the pipeline pragma of a counted loop\<close>







end
